theory Spec2Isabelle
  imports Complex_Main
begin

text \<open>
  A record service with two entities, Users and Tasks, behind an Express router over a
  Mongoose store. This theory embeds the query parsing of the routes, the coercion of
  the values of a request body, the assignment of a Task to a User and the handlers that
  keep \<open>Task.assignedUser\<close> and \<open>User.pendingTasks\<close> in step, and proves what the
  specification says about them. The sources are the tasks router (with the Task
  schema), the users router and routes/_utils.js.
\<close>

section \<open>Values of the runtime\<close>

text \<open>
  Identifiers of documents are strings in canonical form (what \<open>String(doc._id)\<close>
  prints); a text that a request supplies as an id denotes an identifier through the
  platform's cast. A JavaScript number is not-a-number, an infinity, or a finite value;
  finite values are exact rationals here (rounding to doubles and the sign of zero are
  not modelled). A \<open>Date\<close> holds a time value in milliseconds since the epoch, or is
  invalid.
\<close>

type_synonym oid = string

datatype jsnum = NaN | PosInf | NegInf | Finite rat

datatype jsdate = InvalidDate | TimeValue int

text \<open>
  The scalar values a field of a request body can hold. \<open>DateV\<close> is a \<open>Date\<close>
  instance (a JSON body never holds one, \<open>coerceDeadline\<close> accepts one). An array or
  an object as the value of a field that the handlers coerce is outside the model.
\<close>

datatype jsval = Undefined | Null | Bool bool | Num jsnum | Str string | DateV jsdate

text \<open>The result of \<open>JSON.parse\<close>: an object is the list of its keys and values.\<close>

datatype json =
    JNull
  | JBool bool
  | JNum jsnum
  | JStr string
  | JArr "json list"
  | JObj "(string \<times> json) list"

text \<open>
  What the handlers throw or pass to \<open>next(err)\<close>: an \<open>Error\<close> that carries a
  \<open>statusCode\<close> and a message, the \<open>SyntaxError\<close> of \<open>JSON.parse\<close> (no status
  code), the rejection of a document by its schema on \<open>save\<close>, the failure of a query
  to cast a value of its filter to the type of the field, and the store's refusal of a
  second document with the same \<open>_id\<close>.
\<close>

datatype error =
    HttpError nat string
  | SyntaxError
  | ValidationError
  | CastError
  | DuplicateKey

abbreviation MalformedQuery :: "string \<Rightarrow> error" where
  "MalformedQuery key \<equiv> HttpError 400 (''Invalid JSON in '' @ [CHR 0x27] @ key @ [CHR 0x27])"

abbreviation InvalidDeadline :: error where
  "InvalidDeadline \<equiv> HttpError 400 ''deadline must be a valid date or epoch milliseconds''"

abbreviation InvalidAssigneeId :: error where
  "InvalidAssigneeId \<equiv> HttpError 400 ''assignedUser is not a valid id''"

abbreviation AssigneeNotFound :: error where
  "AssigneeNotFound \<equiv> HttpError 400 ''assignedUser does not exist''"

section \<open>Documents and the store\<close>

text \<open>The Task schema (models/task.js).\<close>

record task =
  task_id :: oid
  task_name :: string
  description :: string
  deadline :: jsdate
  completed :: bool
  assignedUser :: "oid option"
  assignedUserName :: string
  dateCreated :: int

text \<open>
  Modelled from the spec: the User schema (models/user.js is not among the sources).
  A User has an id, a name, an email and the ordered sequence \<open>pendingTasks\<close> of Task
  ids, kept as the texts \<open>String(id)\<close> that the handlers compare.
\<close>

record user =
  user_id :: oid
  user_name :: string
  email :: string
  pendingTasks :: "oid list"

text \<open>
  Every write request a handler sends to the store, in the order it is sent.
\<close>

datatype write_op =
    TaskInsert task
  | TaskSave task
  | TaskUnassignAll oid
  | UserSave user
  | UserPull oid oid
  | UserPushIfAbsent oid oid
  | UserDelete oid

text \<open>
  The two collections, in the store's natural order, and the journal of the writes sent
  so far.
\<close>

record store =
  tasks :: "task list"
  users :: "user list"
  journal :: "write_op list"

section \<open>The platform\<close>

text \<open>
  What the code calls and the sources do not define: \<open>JSON.parse\<close> (\<open>None\<close> when it
  throws), the conversion of a string to a number (\<open>Number(s)\<close>, \<open>+s\<close>),
  \<open>Date.parse\<close>, the ObjectId a value denotes (\<open>None\<close> when
  \<open>mongoose.Types.ObjectId.isValid\<close> is false; a query and \<open>findById\<close> cast an id to
  it), \<open>String.prototype.trim\<close> (the \<open>trim: true\<close> of the Task schema's name),
  \<open>Date.now()\<close>, and the validation of the User schema on \<open>save\<close>. The functions of
  the program take the platform as a parameter.
\<close>

record platform =
  JSON_parse :: "string \<Rightarrow> json option"
  StringToNumber :: "string \<Rightarrow> jsnum"
  Date_parse :: "string \<Rightarrow> jsnum"
  ObjectId_of :: "jsval \<Rightarrow> oid option"
  String_trim :: "string \<Rightarrow> string"
  Date_now :: int
  User_validate :: "user \<Rightarrow> bool"

subsection \<open>Conversions of the language\<close>

text \<open>Truthiness of a parsed JSON value.\<close>

fun json_truthy :: "json \<Rightarrow> bool" where
  "json_truthy JNull = False"
| "json_truthy (JBool b) = b"
| "json_truthy (JNum n) = (n \<noteq> NaN \<and> n \<noteq> Finite 0)"
| "json_truthy (JStr s) = (s \<noteq> [])"
| "json_truthy (JArr xs) = True"
| "json_truthy (JObj kvs) = True"

text \<open>\<open>val == null\<close>.\<close>

fun nullish :: "jsval \<Rightarrow> bool" where
  "nullish Undefined = True"
| "nullish Null = True"
| "nullish v = False"

text \<open>\<open>Number(val)\<close>.\<close>

fun ToNumber :: "platform \<Rightarrow> jsval \<Rightarrow> jsnum" where
  "ToNumber pf Undefined = NaN"
| "ToNumber pf Null = Finite 0"
| "ToNumber pf (Bool b) = Finite (if b then 1 else 0)"
| "ToNumber pf (Num n) = n"
| "ToNumber pf (Str s) = StringToNumber pf s"
| "ToNumber pf (DateV InvalidDate) = NaN"
| "ToNumber pf (DateV (TimeValue t)) = Finite (of_int t)"

text \<open>
  \<open>TimeClip\<close>: a time value is an integral number of milliseconds of magnitude at most
  8.64e15; a finite number is truncated towards zero.
\<close>

definition truncate_rat :: "rat \<Rightarrow> int" where
  "truncate_rat x = (if x < 0 then - \<lfloor>- x\<rfloor> else \<lfloor>x\<rfloor>)"

fun TimeClip :: "jsnum \<Rightarrow> jsdate" where
  "TimeClip (Finite x) =
     (if \<bar>x\<bar> > 8640000000000000 then InvalidDate else TimeValue (truncate_rat x))"
| "TimeClip n = InvalidDate"

text \<open>\<open>new Date(val)\<close> with one argument.\<close>

fun new_Date :: "platform \<Rightarrow> jsval \<Rightarrow> jsdate" where
  "new_Date pf (DateV d) = d"
| "new_Date pf (Str s) = TimeClip (Date_parse pf s)"
| "new_Date pf v = TimeClip (ToNumber pf v)"

text \<open>\<open>toLowerCase\<close> on the ASCII letters.\<close>

definition lower_char :: "char \<Rightarrow> char" where
  "lower_char c =
     (case map_of (zip ''ABCDEFGHIJKLMNOPQRSTUVWXYZ'' ''abcdefghijklmnopqrstuvwxyz'') c of
        None \<Rightarrow> c
      | Some l \<Rightarrow> l)"

definition toLowerCase :: "string \<Rightarrow> string" where
  "toLowerCase s = map lower_char s"

section \<open>Value coercion (the tasks router)\<close>

text \<open>
  \<open>coerceCompleted(val, fallback)\<close>. \<open>String(val)\<close> of a number or of a \<open>Date\<close> is
  never the text \<open>true\<close> or \<open>false\<close>, so those values yield the fallback.
\<close>

fun coerceCompleted :: "jsval \<Rightarrow> bool \<Rightarrow> bool" where
  "coerceCompleted (Bool b) fallback = b"
| "coerceCompleted Undefined fallback = fallback"
| "coerceCompleted Null fallback = fallback"
| "coerceCompleted (Str s) fallback =
     (if toLowerCase s = ''true'' then True
      else if toLowerCase s = ''false'' then False
      else fallback)"
| "coerceCompleted v fallback = fallback"

text \<open>\<open>coerceDeadline(val)\<close>.\<close>

definition coerceDeadline :: "platform \<Rightarrow> jsval \<Rightarrow> error + jsdate" where
  "coerceDeadline pf val =
     (case val of
        DateV d \<Rightarrow> Inr d
      | _ \<Rightarrow>
          (let n = ToNumber pf val;
               d = (if n = NaN then new_Date pf val else new_Date pf (Num n))
           in if d = InvalidDate then Inl InvalidDeadline else Inr d))"

section \<open>The store's operations\<close>

text \<open>\<open>findById\<close>: the document with that id.\<close>

definition Task_findById :: "oid \<Rightarrow> store \<Rightarrow> task option" where
  "Task_findById i s = find (\<lambda>t. task_id t = i) (tasks s)"

definition User_findById :: "oid \<Rightarrow> store \<Rightarrow> user option" where
  "User_findById i s = find (\<lambda>u. user_id u = i) (users s)"

text \<open>\<open>updateOne\<close> changes the first document that matches the filter.\<close>

fun update_first :: "('a \<Rightarrow> bool) \<Rightarrow> ('a \<Rightarrow> 'a) \<Rightarrow> 'a list \<Rightarrow> 'a list" where
  "update_first P f [] = []"
| "update_first P f (x # xs) = (if P x then f x # xs else x # update_first P f xs)"

text \<open>
  \<open>User.updateOne({ _id: u }, { $pull: { pendingTasks: t } })\<close>: every occurrence of
  \<open>t\<close> leaves the list.
\<close>

definition User_pull :: "oid \<Rightarrow> oid \<Rightarrow> store \<Rightarrow> store" where
  "User_pull u t s =
     s\<lparr>users := update_first (\<lambda>d. user_id d = u)
                   (\<lambda>d. d\<lparr>pendingTasks := removeAll t (pendingTasks d)\<rparr>) (users s),
       journal := journal s @ [UserPull u t]\<rparr>"

text \<open>
  \<open>User.updateOne({ _id: u, pendingTasks: { $ne: t } }, { $push: { pendingTasks: t } })\<close>.
\<close>

definition User_pushIfAbsent :: "oid \<Rightarrow> oid \<Rightarrow> store \<Rightarrow> store" where
  "User_pushIfAbsent u t s =
     s\<lparr>users := update_first (\<lambda>d. user_id d = u \<and> t \<notin> set (pendingTasks d))
                   (\<lambda>d. d\<lparr>pendingTasks := pendingTasks d @ [t]\<rparr>) (users s),
       journal := journal s @ [UserPushIfAbsent u t]\<rparr>"

text \<open>
  \<open>save\<close> of a Task. The schema requires a name (trimmed when it was set) and a
  deadline that is a date. A new document is inserted, and the store refuses an
  \<open>_id\<close> it already holds; a document that was read from the store replaces the one
  with its \<open>_id\<close>.
\<close>

definition task_valid :: "task \<Rightarrow> bool" where
  "task_valid t = (task_name t \<noteq> [] \<and> deadline t \<noteq> InvalidDate)"

definition Task_insert :: "task \<Rightarrow> store \<Rightarrow> error + store" where
  "Task_insert t s =
     (if \<not> task_valid t then Inl ValidationError
      else if Task_findById (task_id t) s \<noteq> None then Inl DuplicateKey
      else Inr (s\<lparr>tasks := tasks s @ [t], journal := journal s @ [TaskInsert t]\<rparr>))"

definition Task_replace :: "task \<Rightarrow> store \<Rightarrow> store" where
  "Task_replace t s =
     s\<lparr>tasks := update_first (\<lambda>d. task_id d = task_id t) (\<lambda>d. t) (tasks s),
       journal := journal s @ [TaskSave t]\<rparr>"

definition Task_save :: "task \<Rightarrow> store \<Rightarrow> error + store" where
  "Task_save t s = (if \<not> task_valid t then Inl ValidationError else Inr (Task_replace t s))"

text \<open>
  \<open>Task.updateMany({ assignedUser: u }, { $set: { assignedUser: null,
  assignedUserName: 'unassigned' } })\<close>.
\<close>

definition unassign :: "task \<Rightarrow> task" where
  "unassign t = t\<lparr>assignedUser := None, assignedUserName := ''unassigned''\<rparr>"

definition Task_unassignAll :: "oid \<Rightarrow> store \<Rightarrow> store" where
  "Task_unassignAll u s =
     s\<lparr>tasks := map (\<lambda>t. if assignedUser t = Some u then unassign t else t) (tasks s),
       journal := journal s @ [TaskUnassignAll u]\<rparr>"

text \<open>\<open>user.deleteOne()\<close> and \<open>user.save()\<close> of a document read from the store.\<close>

definition User_delete :: "oid \<Rightarrow> store \<Rightarrow> store" where
  "User_delete u s =
     s\<lparr>users := filter (\<lambda>d. user_id d \<noteq> u) (users s),
       journal := journal s @ [UserDelete u]\<rparr>"

definition User_save :: "platform \<Rightarrow> user \<Rightarrow> store \<Rightarrow> error + store" where
  "User_save pf u s =
     (if \<not> User_validate pf u then Inl ValidationError
      else Inr (s\<lparr>users := update_first (\<lambda>d. user_id d = user_id u) (\<lambda>d. u) (users s),
                  journal := journal s @ [UserSave u]\<rparr>))"

section \<open>Assignment (the tasks router)\<close>

text \<open>
  \<open>applyAssignment(task, assignedUserId)\<close> changes the task in memory and returns the
  id of the resolved user, or null. The model returns the changed task with it. It reads
  the store and sends no write.
\<close>

definition applyAssignment ::
  "platform \<Rightarrow> store \<Rightarrow> task \<Rightarrow> jsval \<Rightarrow> error + (task \<times> oid option)" where
  "applyAssignment pf s t assignedUserId =
     (if assignedUserId = Str [] \<or> nullish assignedUserId
      then Inr (t\<lparr>assignedUser := None, assignedUserName := ''unassigned''\<rparr>, None)
      else
        (case ObjectId_of pf assignedUserId of
           None \<Rightarrow> Inl InvalidAssigneeId
         | Some i \<Rightarrow>
             (case User_findById i s of
                None \<Rightarrow> Inl AssigneeNotFound
              | Some u \<Rightarrow>
                  Inr (t\<lparr>assignedUser := Some (user_id u), assignedUserName := user_name u\<rparr>,
                       Some (user_id u)))))"

section \<open>Query parsing\<close>

text \<open>
  \<open>req.query\<close>: the raw text of each parameter the code reads, \<open>None\<close> when the
  parameter is absent.
\<close>

record query =
  q_where :: "string option"
  q_filter :: "string option"
  q_sort :: "string option"
  q_select :: "string option"
  q_skip :: "string option"
  q_limit :: "string option"
  q_count :: "string option"

text \<open>The query descriptor; \<open>None\<close> is \<open>undefined\<close>.\<close>

record descriptor =
  d_where :: "json option"
  d_sort :: "json option"
  d_select :: "json option"
  d_skip :: jsnum
  d_limit :: jsnum
  d_count :: bool

text \<open>\<open>parseJSONParam(val, name)\<close>, the same in the three files.\<close>

definition parseJSONParam :: "platform \<Rightarrow> string option \<Rightarrow> string \<Rightarrow> error + json option" where
  "parseJSONParam pf val name =
     (case val of
        None \<Rightarrow> Inr None
      | Some v \<Rightarrow>
          (case JSON_parse pf v of
             None \<Rightarrow> Inl (MalformedQuery name)
           | Some j \<Rightarrow> Inr (Some j)))"

text \<open>\<open>x || undefined\<close> on the result of \<open>parseJSONParam\<close>.\<close>

definition or_undefined :: "json option \<Rightarrow> json option" where
  "or_undefined r = (case r of None \<Rightarrow> None | Some j \<Rightarrow> if json_truthy j then Some j else None)"

text \<open>\<open>req.query.where ?? req.query.filter\<close>.\<close>

definition rawWhere :: "query \<Rightarrow> string option" where
  "rawWhere q = (case q_where q of Some w \<Rightarrow> Some w | None \<Rightarrow> q_filter q)"

text \<open>
  \<open>rawWhere ? parseJSONParam(rawWhere, rawWhere === req.query.where ? 'where' : 'filter')
  : {}\<close>: the empty text is falsy, like an absent parameter.
\<close>

definition parse_where :: "platform \<Rightarrow> query \<Rightarrow> error + json option" where
  "parse_where pf q =
     (if rawWhere q \<noteq> None \<and> rawWhere q \<noteq> Some []
      then parseJSONParam pf (rawWhere q) (if rawWhere q = q_where q then ''where'' else ''filter'')
      else Inr (Some (JObj [])))"

text \<open>
  \<open>Number.isFinite(+raw) ? Math.max(0, +raw) : dflt\<close>, and
  \<open>String(raw).toLowerCase() === 'true'\<close>.
\<close>

definition unary_plus :: "platform \<Rightarrow> string option \<Rightarrow> jsnum" where
  "unary_plus pf raw = (case raw of None \<Rightarrow> NaN | Some s \<Rightarrow> StringToNumber pf s)"

definition finite_or :: "platform \<Rightarrow> string option \<Rightarrow> jsnum \<Rightarrow> jsnum" where
  "finite_or pf raw dflt =
     (case unary_plus pf raw of Finite x \<Rightarrow> Finite (max 0 x) | _ \<Rightarrow> dflt)"

definition is_true_text :: "string option \<Rightarrow> bool" where
  "is_true_text raw =
     (toLowerCase (case raw of None \<Rightarrow> ''undefined'' | Some s \<Rightarrow> s) = ''true'')"

text \<open>
  \<open>parseQueryWithFilterAlias(req, defaults)\<close> of the tasks router; \<open>dl\<close> is
  \<open>defaults.limit\<close>.
\<close>

definition parseQueryWithFilterAlias ::
  "platform \<Rightarrow> query \<Rightarrow> jsnum option \<Rightarrow> error + descriptor" where
  "parseQueryWithFilterAlias pf q dl =
     (case parse_where pf q of
        Inl e \<Rightarrow> Inl e
      | Inr w \<Rightarrow>
          (case parseJSONParam pf (q_sort q) ''sort'' of
             Inl e \<Rightarrow> Inl e
           | Inr so \<Rightarrow>
               (case parseJSONParam pf (q_select q) ''select'' of
                  Inl e \<Rightarrow> Inl e
                | Inr se \<Rightarrow>
                    Inr \<lparr>d_where = w, d_sort = or_undefined so, d_select = or_undefined se,
                         d_skip = finite_or pf (q_skip q) (Finite 0),
                         d_limit = finite_or pf (q_limit q)
                                     (case dl of None \<Rightarrow> Finite 0 | Some l \<Rightarrow> l),
                         d_count = is_true_text (q_count q)\<rparr>)))"

text \<open>
  \<open>parseQueryParams(req, defaults)\<close> of routes/_utils.js: \<open>where\<close> goes to
  \<open>JSON.parse\<close> directly.
\<close>

definition parseQueryParams ::
  "platform \<Rightarrow> query \<Rightarrow> jsnum option \<Rightarrow> error + descriptor" where
  "parseQueryParams pf q dl =
     (case (if rawWhere q \<noteq> None \<and> rawWhere q \<noteq> Some []
            then (case JSON_parse pf (the (rawWhere q)) of
                    None \<Rightarrow> Inl SyntaxError
                  | Some j \<Rightarrow> Inr (Some j))
            else Inr (Some (JObj []))) of
        Inl e \<Rightarrow> Inl e
      | Inr w \<Rightarrow>
          (case parseJSONParam pf (q_sort q) ''sort'' of
             Inl e \<Rightarrow> Inl e
           | Inr so \<Rightarrow>
               (case parseJSONParam pf (q_select q) ''select'' of
                  Inl e \<Rightarrow> Inl e
                | Inr se \<Rightarrow>
                    Inr \<lparr>d_where = w, d_sort = or_undefined so, d_select = or_undefined se,
                         d_skip = finite_or pf (q_skip q) (Finite 0),
                         d_limit = finite_or pf (q_limit q)
                                     (case dl of None \<Rightarrow> Finite 0 | Some l \<Rightarrow> l),
                         d_count = is_true_text (q_count q)\<rparr>)))"

subsection \<open>The list handlers: moving \<open>_id\<close> from the filter to the projection\<close>

text \<open>Own properties of a parsed object: lookup, assignment, \<open>delete\<close>.\<close>

definition obj_get :: "(string \<times> json) list \<Rightarrow> string \<Rightarrow> json option" where
  "obj_get kvs k = map_option snd (find (\<lambda>p. fst p = k) kvs)"

fun obj_set :: "(string \<times> json) list \<Rightarrow> string \<Rightarrow> json \<Rightarrow> (string \<times> json) list" where
  "obj_set [] k v = [(k, v)]"
| "obj_set (p # ps) k v = (if fst p = k then (k, v) # ps else p # obj_set ps k v)"

definition obj_delete :: "(string \<times> json) list \<Rightarrow> string \<Rightarrow> (string \<times> json) list" where
  "obj_delete kvs k = filter (\<lambda>p. fst p \<noteq> k) kvs"

text \<open>
  \<open>{ ...(select || {}) }\<close>: the own enumerable properties of the value. An array and a
  text spread their indices, a number and a boolean spread nothing.
\<close>

fun string_of_nat :: "nat \<Rightarrow> string" where
  "string_of_nat n =
     (if n < 10 then [''0123456789'' ! n]
      else string_of_nat (n div 10) @ [''0123456789'' ! (n mod 10)])"

definition indexed :: "json list \<Rightarrow> (string \<times> json) list" where
  "indexed xs = zip (map string_of_nat [0..<length xs]) xs"

fun spread :: "json option \<Rightarrow> (string \<times> json) list" where
  "spread (Some (JObj kvs)) = kvs"
| "spread (Some (JArr xs)) = indexed xs"
| "spread (Some (JStr s)) = indexed (map (\<lambda>c. JStr [c]) s)"
| "spread r = []"

text \<open>
  The test \<open>where._id === 1 || where._id === 0\<close> on the own property \<open>_id\<close> of an
  object.
\<close>

definition is_one_or_zero :: "json option \<Rightarrow> bool" where
  "is_one_or_zero v = (v = Some (JNum (Finite 1)) \<or> v = Some (JNum (Finite 0)))"

text \<open>
  GET /api/tasks, up to the query it sends to the store: \<open>select\<close> is parsed before
  \<open>sort\<close>, and the default limit is 100.
\<close>

definition get_tasks_query :: "platform \<Rightarrow> query \<Rightarrow> error + descriptor" where
  "get_tasks_query pf q =
     (case parse_where pf q of
        Inl e \<Rightarrow> Inl e
      | Inr w \<Rightarrow>
          (case parseJSONParam pf (q_select q) ''select'' of
             Inl e \<Rightarrow> Inl e
           | Inr se \<Rightarrow>
               (case parseJSONParam pf (q_sort q) ''sort'' of
                  Inl e \<Rightarrow> Inl e
                | Inr so \<Rightarrow>
                    (let d = \<lparr>d_where = w, d_sort = or_undefined so,
                              d_select = or_undefined se,
                              d_skip = finite_or pf (q_skip q) (Finite 0),
                              d_limit = finite_or pf (q_limit q) (Finite 100),
                              d_count = is_true_text (q_count q)\<rparr>
                     in Inr
                       (case w of
                          Some (JObj kvs) \<Rightarrow>
                            (if obj_get kvs ''_id'' \<noteq> None
                             then (if is_one_or_zero (obj_get kvs ''_id'')
                                   then d\<lparr>d_select :=
                                            Some (JObj (obj_set (spread (d_select d)) ''_id''
                                                      (the (obj_get kvs ''_id'')))),
                                          d_where := Some (JObj (obj_delete kvs ''_id''))\<rparr>
                                   else d)
                             else d)
                        | _ \<Rightarrow> d)))))"

text \<open>GET /api/users, up to the query it sends to the store: the default limit is 0.\<close>

definition get_users_query :: "platform \<Rightarrow> query \<Rightarrow> error + descriptor" where
  "get_users_query pf q =
     (case parse_where pf q of
        Inl e \<Rightarrow> Inl e
      | Inr w \<Rightarrow>
          (case parseJSONParam pf (q_select q) ''select'' of
             Inl e \<Rightarrow> Inl e
           | Inr se \<Rightarrow>
               (case parseJSONParam pf (q_sort q) ''sort'' of
                  Inl e \<Rightarrow> Inl e
                | Inr so \<Rightarrow>
                    (let d = \<lparr>d_where = w, d_sort = or_undefined so,
                              d_select = or_undefined se,
                              d_skip = finite_or pf (q_skip q) (Finite 0),
                              d_limit = finite_or pf (q_limit q) (Finite 0),
                              d_count = is_true_text (q_count q)\<rparr>
                     in Inr
                       (case w of
                          Some (JObj kvs) \<Rightarrow>
                            (if obj_get kvs ''_id'' \<noteq> None \<and> is_one_or_zero (obj_get kvs ''_id'')
                             then d\<lparr>d_select :=
                                      Some (JObj (obj_set (spread (d_select d)) ''_id''
                                                (the (obj_get kvs ''_id'')))),
                                    d_where := Some (JObj (obj_delete kvs ''_id''))\<rparr>
                             else d)
                        | _ \<Rightarrow> d)))))"

section \<open>The handlers\<close>

text \<open>
  A handler answers with \<open>res.status(c).json({ message, data })\<close> or passes what it
  caught to \<open>next(err)\<close>. It returns the store as its writes left it.
\<close>

datatype payload = NoData | TaskData task | UserData user

datatype reply = Json nat string payload | Next error

text \<open>
  The fields of a request body that the task handlers read. \<open>name\<close> and
  \<open>description\<close> are text, or absent or null (\<open>None\<close>); a body that holds another
  type there is outside the model.
\<close>

record task_body =
  b_name :: "string option"
  b_description :: "string option"
  b_deadline :: jsval
  b_completed :: jsval
  b_assignedUser :: jsval

text \<open>
  The fields that the user handlers read. \<open>pendingTasks\<close> is \<open>Some\<close> list of the
  texts of its elements when the body holds an array there (\<open>Array.isArray\<close>), and
  \<open>None\<close> otherwise; an array that holds an element that is not text is outside the
  model.
\<close>

record user_body =
  ub_name :: "string option"
  ub_email :: "string option"
  ub_pendingTasks :: "string list option"

text \<open>\<open>!name\<close> for a text field.\<close>

definition missing :: "string option \<Rightarrow> bool" where
  "missing x = (x = None \<or> x = Some [])"

text \<open>
  \<open>isValidObjectId(id)\<close> of routes/_utils.js, on a route parameter. After it,
  \<open>findById(id)\<close> looks for the ObjectId that the parameter denotes.
\<close>

definition isValidObjectId :: "platform \<Rightarrow> string \<Rightarrow> bool" where
  "isValidObjectId pf i = (ObjectId_of pf (Str i) \<noteq> None)"

text \<open>
  POST /api/tasks. \<open>new_id\<close> is the \<open>_id\<close> that \<open>new Task\<close> generates.
\<close>

definition post_task :: "platform \<Rightarrow> oid \<Rightarrow> task_body \<Rightarrow> store \<Rightarrow> reply \<times> store" where
  "post_task pf new_id body s =
     (if missing (b_name body) \<or> nullish (b_deadline body)
      then (Json 400 ''name and deadline are required'' NoData, s)
      else
        (case coerceDeadline pf (b_deadline body) of
           Inl e \<Rightarrow> (Next e, s)
         | Inr d \<Rightarrow>
             (let t = \<lparr>task_id = new_id,
                       task_name = String_trim pf (the (b_name body)),
                       description = (case b_description body of None \<Rightarrow> [] | Some x \<Rightarrow> x),
                       deadline = d,
                       completed = coerceCompleted (b_completed body) False,
                       assignedUser = None,
                       assignedUserName = ''unassigned'',
                       dateCreated = Date_now pf\<rparr>
              in case applyAssignment pf s t (b_assignedUser body) of
                   Inl e \<Rightarrow> (Next e, s)
                 | Inr (t', assignedUserId) \<Rightarrow>
                     (case Task_insert t' s of
                        Inl e \<Rightarrow> (Next e, s)
                      | Inr s1 \<Rightarrow>
                          (Json 201 ''Created'' (TaskData t'),
                           (case assignedUserId of
                              None \<Rightarrow> s1
                            | Some u \<Rightarrow> User_pushIfAbsent u (task_id t') s1))))))"

text \<open>PUT /api/tasks/:id.\<close>

definition put_task :: "platform \<Rightarrow> string \<Rightarrow> task_body \<Rightarrow> store \<Rightarrow> reply \<times> store" where
  "put_task pf i body s =
     (if \<not> isValidObjectId pf i then (Json 400 ''Invalid task id'' NoData, s)
      else
          (case Task_findById (the (ObjectId_of pf (Str i))) s of
             None \<Rightarrow> (Json 404 ''Task not found'' NoData, s)
           | Some existing \<Rightarrow>
               (if missing (b_name body) \<or> nullish (b_deadline body)
                then (Json 400 ''name and deadline are required'' NoData, s)
                else
                  (let prevAssignedUser = assignedUser existing in
                   case coerceDeadline pf (b_deadline body) of
                     Inl e \<Rightarrow> (Next e, s)
                   | Inr d \<Rightarrow>
                       (let t = existing\<lparr>task_name := String_trim pf (the (b_name body)),
                                        description :=
                                          (case b_description body of None \<Rightarrow> [] | Some x \<Rightarrow> x),
                                        deadline := d,
                                        completed := coerceCompleted (b_completed body) False\<rparr>
                        in case applyAssignment pf s t (b_assignedUser body) of
                             Inl e \<Rightarrow> (Next e, s)
                           | Inr (t', currAssignedUser) \<Rightarrow>
                               (case Task_save t' s of
                                  Inl e \<Rightarrow> (Next e, s)
                                | Inr s1 \<Rightarrow>
                                    (let s2 = (case prevAssignedUser of
                                                 None \<Rightarrow> s1
                                               | Some p \<Rightarrow>
                                                   if prevAssignedUser \<noteq> currAssignedUser
                                                   then User_pull p (task_id t') s1 else s1);
                                         s3 = (case currAssignedUser of
                                                 None \<Rightarrow> s2
                                               | Some c \<Rightarrow>
                                                   if prevAssignedUser \<noteq> currAssignedUser
                                                   then User_pushIfAbsent c (task_id t') s2
                                                   else s2)
                                     in (Json 200 ''OK'' (TaskData t'), s3))))))))"

text \<open>DELETE /api/users/:id.\<close>

definition delete_user :: "platform \<Rightarrow> string \<Rightarrow> store \<Rightarrow> reply \<times> store" where
  "delete_user pf i s =
     (if \<not> isValidObjectId pf i then (Json 400 ''Invalid user id'' NoData, s)
      else
          (case User_findById (the (ObjectId_of pf (Str i))) s of
             None \<Rightarrow> (Json 404 ''User not found'' NoData, s)
           | Some u \<Rightarrow>
               (Json 204 ''No Content'' NoData,
                User_delete (user_id u) (Task_unassignAll (user_id u) s))))"

text \<open>
  \<open>for (const t of tasks) { ...; await t.save(); }\<close>: each task is changed by \<open>f\<close> and
  saved; a save that throws ends the loop, and the earlier saves stay.
\<close>

fun save_each :: "(task \<Rightarrow> task) \<Rightarrow> task list \<Rightarrow> store \<Rightarrow> error option \<times> store" where
  "save_each f [] s = (None, s)"
| "save_each f (t # ts) s =
     (case Task_save (f t) s of
        Inl e \<Rightarrow> (Some e, s)
      | Inr s' \<Rightarrow> save_each f ts s')"

definition assign_to :: "user \<Rightarrow> task \<Rightarrow> task" where
  "assign_to u t = t\<lparr>assignedUser := Some (user_id u), assignedUserName := user_name u\<rparr>"

text \<open>
  \<open>Task.find({ _id: { $in: ids } })\<close> casts each text of \<open>ids\<close> to the ObjectId it
  denotes before it matches, and throws when a text denotes none.
\<close>

definition cast_ids :: "platform \<Rightarrow> string list \<Rightarrow> error + oid list" where
  "cast_ids pf ids =
     (if list_all (\<lambda>x. ObjectId_of pf (Str x) \<noteq> None) ids
      then Inr (map (\<lambda>x. the (ObjectId_of pf (Str x))) ids)
      else Inl CastError)"

text \<open>
  The two loops of PUT /api/users/:id over the tasks that left and that joined the
  list of the user \<open>u\<close>: each loop runs when its list of ids is not empty, over the
  tasks that \<open>Task.find\<close> returns then.
\<close>

definition sync_tasks ::
  "platform \<Rightarrow> user \<Rightarrow> string list \<Rightarrow> string list \<Rightarrow> store \<Rightarrow> error option \<times> store" where
  "sync_tasks pf u toRemove toAdd s1 =
     (case (if toRemove \<noteq> []
            then (case cast_ids pf toRemove of
                    Inl e \<Rightarrow> (Some e, s1)
                  | Inr ids \<Rightarrow>
                      save_each unassign
                        (filter (\<lambda>t. task_id t \<in> set ids \<and> assignedUser t = Some (user_id u))
                           (tasks s1)) s1)
            else (None, s1)) of
        (Some e, s2) \<Rightarrow> (Some e, s2)
      | (None, s2) \<Rightarrow>
          (if toAdd \<noteq> []
           then (case cast_ids pf toAdd of
                   Inl e \<Rightarrow> (Some e, s2)
                 | Inr ids \<Rightarrow>
                     save_each (assign_to u) (filter (\<lambda>t. task_id t \<in> set ids) (tasks s2)) s2)
           else (None, s2)))"

text \<open>
  PUT /api/users/:id. The texts of the old list (\<open>user.pendingTasks.map(String)\<close>) and
  of the new one are compared as texts. Modelled from the spec: the User schema stores
  the email in lower case and the list as it is given.
\<close>

definition put_user :: "platform \<Rightarrow> string \<Rightarrow> user_body \<Rightarrow> store \<Rightarrow> reply \<times> store" where
  "put_user pf i body s =
     (if \<not> isValidObjectId pf i then (Json 400 ''Invalid user id'' NoData, s)
      else
          (if missing (ub_name body) \<or> missing (ub_email body)
           then (Json 400 ''name and email are required'' NoData, s)
           else
             (case User_findById (the (ObjectId_of pf (Str i))) s of
                None \<Rightarrow> (Json 404 ''User not found'' NoData, s)
              | Some u \<Rightarrow>
                  (if find (\<lambda>d. user_id d \<noteq> user_id u
                                 \<and> email d = toLowerCase (the (ub_email body))) (users s) \<noteq> None
                   then (Json 400 ''A user with that email already exists'' NoData, s)
                   else
                     (let newTaskIds = (case ub_pendingTasks body of None \<Rightarrow> [] | Some l \<Rightarrow> l);
                          prevTaskIds = pendingTasks u;
                          toRemove = filter (\<lambda>x. x \<notin> set newTaskIds) prevTaskIds;
                          toAdd = filter (\<lambda>x. x \<notin> set prevTaskIds) newTaskIds;
                          u' = u\<lparr>user_name := the (ub_name body),
                                 email := toLowerCase (the (ub_email body)),
                                 pendingTasks := newTaskIds\<rparr>
                      in case User_save pf u' s of
                           Inl e \<Rightarrow> (Next e, s)
                         | Inr s1 \<Rightarrow>
                             (case sync_tasks pf u' toRemove toAdd s1 of
                                (Some e, s3) \<Rightarrow> (Next e, s3)
                              | (None, s3) \<Rightarrow> (Json 200 ''OK'' (UserData u'), s3)))))))"

section \<open>A reference platform for closed examples\<close>

text \<open>
  The closed examples below need a platform to run on. Each function here gives what
  Node answers on the inputs the examples use, by a rule that is exact on a stated
  fragment of the inputs.
\<close>

text \<open>
  \<open>JSON.parse\<close> as a table: each entry is the value \<open>JSON.parse\<close> returns for that
  text. The examples use, besides these texts, only the empty text and the text
  \<open>{bad\<close>, on which \<open>JSON.parse\<close> throws.
\<close>

definition reference_JSON_parse :: "string \<Rightarrow> json option" where
  \<open>reference_JSON_parse s =
     (if s = ''null'' then Some JNull
      else if s = ''{"_id":1}'' then Some (JObj [(''_id'', JNum (Finite 1))])
      else if s = ''{"_id":0,"completed":true}''
        then Some (JObj [(''_id'', JNum (Finite 0)), (''completed'', JBool True)])
      else if s = ''{"_id":2}'' then Some (JObj [(''_id'', JNum (Finite 2))])
      else if s = ''{"_id":"1"}'' then Some (JObj [(''_id'', JStr ''1'')])
      else if s = ''{"name":1}'' then Some (JObj [(''name'', JNum (Finite 1))])
      else if s = ''{"completed":true}'' then Some (JObj [(''completed'', JBool True)])
      else None)\<close>

text \<open>
  \<open>trim\<close> on the ASCII white space (tab, line feed, vertical tab, form feed, carriage
  return, space): exact on a text of ASCII characters. The other white space that
  \<open>String.prototype.trim\<close> strips (U+00A0, U+FEFF, U+2028 and the like) is outside the
  fragment.

  \<open>Number(s)\<close>: white space is trimmed, the empty text is 0, a text of decimal digits
  is its value, and a text that is no numeric literal is not-a-number. Literals with a
  sign, a fraction, an exponent or a radix prefix, and \<open>Infinity\<close>, are outside the
  fragment.
\<close>

definition is_space :: "char \<Rightarrow> bool" where
  "is_space c = ((9 \<le> (of_char c :: nat) \<and> (of_char c :: nat) \<le> 13) \<or> (of_char c :: nat) = 32)"

definition ascii_trim :: "string \<Rightarrow> string" where
  "ascii_trim s = rev (dropWhile is_space (rev (dropWhile is_space s)))"

definition is_digit :: "char \<Rightarrow> bool" where
  "is_digit c = (48 \<le> (of_char c :: nat) \<and> (of_char c :: nat) \<le> 57)"

definition digits_value :: "string \<Rightarrow> nat" where
  "digits_value s = foldl (\<lambda>n c. 10 * n + ((of_char c :: nat) - 48)) 0 s"

definition reference_StringToNumber :: "string \<Rightarrow> jsnum" where
  "reference_StringToNumber s =
     (if ascii_trim s = [] then Finite 0
      else if list_all is_digit (ascii_trim s)
      then Finite (of_nat (digits_value (ascii_trim s)))
      else NaN)"

text \<open>
  \<open>Date.parse\<close> on the form \<open>YYYY-MM-DDTHH:mm:ssZ\<close> of the language's date-time
  format, by the day arithmetic of the language standard; not-a-number for a text that
  is not of this form or holds an element out of range. The other forms Node accepts
  are outside the fragment.
\<close>

definition DayFromYear :: "int \<Rightarrow> int" where
  "DayFromYear y =
     365 * (y - 1970) + (y - 1969) div 4 - (y - 1901) div 100 + (y - 1601) div 400"

definition leap_year :: "int \<Rightarrow> bool" where
  "leap_year y = ((y mod 4 = 0 \<and> y mod 100 \<noteq> 0) \<or> y mod 400 = 0)"

definition month_lengths :: "int \<Rightarrow> nat list" where
  "month_lengths y =
     [31, if leap_year y then 29 else 28, 31, 30, 31, 30, 31, 31, 30, 31, 30, 31]"

definition utc_ms :: "nat \<Rightarrow> nat \<Rightarrow> nat \<Rightarrow> nat \<Rightarrow> nat \<Rightarrow> nat \<Rightarrow> jsnum" where
  "utc_ms y mo d h mi sec =
     (if 1 \<le> mo \<and> mo \<le> 12 \<and> 1 \<le> d \<and> d \<le> month_lengths (int y) ! (mo - 1)
         \<and> h \<le> 23 \<and> mi \<le> 59 \<and> sec \<le> 59
      then Finite (of_int
             ((((DayFromYear (int y)
                 + int (sum_list (take (mo - 1) (month_lengths (int y)))) + int (d - 1)) * 24
                + int h) * 60 + int mi) * 60 + int sec) * 1000)
      else NaN)"

fun reference_Date_parse :: "string \<Rightarrow> jsnum" where
  "reference_Date_parse
     [y1, y2, y3, y4, s1, m1, m2, s2, d1, d2, st, h1, h2, c1, n1, n2, c2, e1, e2, z] =
     (if list_all is_digit [y1, y2, y3, y4, m1, m2, d1, d2, h1, h2, n1, n2, e1, e2]
         \<and> [s1, s2, st, c1, c2, z] = ''--T::Z''
      then utc_ms (digits_value [y1, y2, y3, y4]) (digits_value [m1, m2])
             (digits_value [d1, d2]) (digits_value [h1, h2]) (digits_value [n1, n2])
             (digits_value [e1, e2])
      else NaN)"
| "reference_Date_parse s = NaN"

text \<open>
  The ObjectId of a text of 24 hexadecimal digits is the text in lower case; every
  other value is answered \<open>None\<close> (the other values the driver accepts depend on its
  version and are outside the fragment).
\<close>

definition is_hex :: "char \<Rightarrow> bool" where
  "is_hex c =
     (is_digit c \<or> (97 \<le> (of_char c :: nat) \<and> (of_char c :: nat) \<le> 102)
      \<or> (65 \<le> (of_char c :: nat) \<and> (of_char c :: nat) \<le> 70))"

fun reference_ObjectId_of :: "jsval \<Rightarrow> oid option" where
  "reference_ObjectId_of (Str s) =
     (if length s = 24 \<and> list_all is_hex s then Some (toLowerCase s) else None)"
| "reference_ObjectId_of v = None"

text \<open>
  Modelled from the spec: the User schema accepts a document whose name and email are
  non-empty text.
\<close>

definition reference_platform :: platform where
  "reference_platform =
     \<lparr>JSON_parse = reference_JSON_parse,
      StringToNumber = reference_StringToNumber,
      Date_parse = reference_Date_parse,
      ObjectId_of = reference_ObjectId_of,
      String_trim = ascii_trim,
      Date_now = 1762041600000,
      User_validate = (\<lambda>u. user_name u \<noteq> [] \<and> email u \<noteq> [])\<rparr>"

section \<open>Example data\<close>

text \<open>
  Two users and three tasks: the first and the third task are assigned to the first
  user, the second task to the second user, and each user lists its tasks.
\<close>

abbreviation alice_id :: oid where "alice_id \<equiv> ''507f1f77bcf86cd799439011''"
abbreviation bob_id :: oid where "bob_id \<equiv> ''507f1f77bcf86cd799439012''"
abbreviation task1_id :: oid where "task1_id \<equiv> ''65a0000000000000000000a1''"
abbreviation task2_id :: oid where "task2_id \<equiv> ''65a0000000000000000000a2''"
abbreviation task3_id :: oid where "task3_id \<equiv> ''65a0000000000000000000a3''"
abbreviation fresh_id :: oid where "fresh_id \<equiv> ''65a0000000000000000000b1''"

definition alice :: user where
  "alice = \<lparr>user_id = alice_id, user_name = ''A'', email = ''a@x.com'',
            pendingTasks = [task1_id, task3_id]\<rparr>"

definition bob :: user where
  "bob = \<lparr>user_id = bob_id, user_name = ''B'', email = ''b@x.com'',
          pendingTasks = [task2_id]\<rparr>"

definition task1 :: task where
  "task1 = \<lparr>task_id = task1_id, task_name = ''T1'', description = [],
            deadline = TimeValue 1700000000000, completed = False,
            assignedUser = Some alice_id, assignedUserName = ''A'',
            dateCreated = 1690000000000\<rparr>"

definition task2 :: task where
  "task2 = \<lparr>task_id = task2_id, task_name = ''T2'', description = [],
            deadline = TimeValue 1700000000000, completed = False,
            assignedUser = Some bob_id, assignedUserName = ''B'',
            dateCreated = 1690000000000\<rparr>"

definition task3 :: task where
  "task3 = \<lparr>task_id = task3_id, task_name = ''T3'', description = [],
            deadline = TimeValue 1700000000000, completed = True,
            assignedUser = Some alice_id, assignedUserName = ''A'',
            dateCreated = 1690000000000\<rparr>"

definition example_store :: store where
  "example_store = \<lparr>tasks = [task1, task2, task3], users = [alice, bob], journal = []\<rparr>"

text \<open>Two queries: one with every kind of parameter, one with none.\<close>

definition example_query :: query where
  \<open>example_query = \<lparr>q_where = Some ''{"completed":true}'', q_filter = Some ''{bad'',
      q_sort = Some ''{"name":1}'', q_select = Some ''null'', q_skip = Some ''5'',
      q_limit = None, q_count = Some ''TRUE''\<rparr>\<close>

definition empty_query :: query where
  "empty_query = \<lparr>q_where = None, q_filter = None, q_sort = None, q_select = None,
      q_skip = None, q_limit = None, q_count = None\<rparr>"

text \<open>Two request bodies: one creates a task, one updates the first task.\<close>

definition create_body :: task_body where
  "create_body = \<lparr>b_name = Some ''  New task '', b_description = None,
      b_deadline = Num (Finite 1700000000000), b_completed = Str ''TRUE'',
      b_assignedUser = Str alice_id\<rparr>"

definition update_body :: task_body where
  "update_body = \<lparr>b_name = Some ''T1 again'', b_description = Some ''moved'',
      b_deadline = Str ''2023-11-14T00:00:00Z'', b_completed = Bool True,
      b_assignedUser = Str bob_id\<rparr>"

text \<open>The first task after each of two updates, and the task that the creation makes.\<close>

definition moved_task1 :: task where
  "moved_task1 = task1\<lparr>task_name := ''T1 again'', description := ''moved'',
      deadline := TimeValue 1699920000000, completed := True,
      assignedUser := Some bob_id, assignedUserName := ''B''\<rparr>"

definition renamed_task1 :: task where
  "renamed_task1 = task1\<lparr>task_name := ''T1 again'', description := ''moved'',
      deadline := TimeValue 1699920000000, completed := True\<rparr>"

definition created_task :: task where
  "created_task = \<lparr>task_id = fresh_id, task_name = ''New task'', description = [],
      deadline = TimeValue 1700000000000, completed = True, assignedUser = Some alice_id,
      assignedUserName = ''A'', dateCreated = 1762041600000\<rparr>"

text \<open>A request body that replaces the first user's list, and the user it makes.\<close>

definition replace_body :: user_body where
  "replace_body = \<lparr>ub_name = Some ''Alice'', ub_email = Some ''A@X.com'',
      ub_pendingTasks = Some [task3_id, task2_id, ''65a0000000000000000000a9'']\<rparr>"

definition updated_alice :: user where
  "updated_alice = alice\<lparr>user_name := ''Alice'', email := ''a@x.com'',
      pendingTasks := [task3_id, task2_id, ''65a0000000000000000000a9'']\<rparr>"

text \<open>
  Two more bodies for the first user: one names the first task in upper case, one holds
  a text that denotes no ObjectId.
\<close>

definition upper_case_body :: user_body where
  "upper_case_body = \<lparr>ub_name = Some ''Alice'', ub_email = Some ''a@x.com'',
      ub_pendingTasks = Some [''65A0000000000000000000A1'', task3_id]\<rparr>"

definition malformed_body :: user_body where
  "malformed_body = \<lparr>ub_name = Some ''Alice'', ub_email = Some ''a@x.com'',
      ub_pendingTasks = Some [task1_id, task3_id, ''42'']\<rparr>"

section \<open>Properties\<close>

subsection \<open>Evaluation of the reference platform and of the example store\<close>

lemma find_user_id: "find (\<lambda>u. user_id u = i) us = Some u \<Longrightarrow> user_id u = i"
  by (induction us) (auto split: if_splits)

lemma find_task_id: "find (\<lambda>t. task_id t = i) ts = Some t \<Longrightarrow> task_id t = i"
  by (induction ts) (auto split: if_splits)

lemma User_findById_id: "User_findById i s = Some u \<Longrightarrow> user_id u = i"
  unfolding User_findById_def by (rule find_user_id)

lemma Task_findById_id: "Task_findById i s = Some t \<Longrightarrow> task_id t = i"
  unfolding Task_findById_def by (rule find_task_id)

lemma nullish_iff: "nullish v \<longleftrightarrow> v = Null \<or> v = Undefined"
  by (cases v) simp_all

lemma reference_trim: "String_trim reference_platform s = ascii_trim s"
  by (simp add: reference_platform_def)

lemma reference_ObjectId_alice:
  "ObjectId_of reference_platform (Str alice_id) = Some alice_id"
  by (simp add: reference_platform_def is_hex_def is_digit_def toLowerCase_def lower_char_def)

lemma reference_ObjectId_alice_upper:
  "ObjectId_of reference_platform (Str ''507F1F77BCF86CD799439011'') = Some alice_id"
  by (simp add: reference_platform_def is_hex_def is_digit_def toLowerCase_def lower_char_def)

lemma reference_ObjectId_bob:
  "ObjectId_of reference_platform (Str bob_id) = Some bob_id"
  by (simp add: reference_platform_def is_hex_def is_digit_def toLowerCase_def lower_char_def)

lemma reference_ObjectId_short:
  "ObjectId_of reference_platform (Str ''42'') = None"
  by (simp add: reference_platform_def)

lemma reference_ObjectId_unknown:
  "ObjectId_of reference_platform (Str ''507f1f77bcf86cd799439099'')
     = Some ''507f1f77bcf86cd799439099''"
  by (simp add: reference_platform_def is_hex_def is_digit_def toLowerCase_def lower_char_def)

lemma example_find_alice: "User_findById alice_id example_store = Some alice"
  by (simp add: User_findById_def example_store_def alice_def)

lemma example_find_bob: "User_findById bob_id example_store = Some bob"
  by (simp add: User_findById_def example_store_def alice_def bob_def)

lemma example_find_unknown: "User_findById ''507f1f77bcf86cd799439099'' example_store = None"
  by (simp add: User_findById_def example_store_def alice_def bob_def)

lemma reference_deadline_number:
  "coerceDeadline reference_platform (Num (Finite 1700000000000))
     = Inr (TimeValue 1700000000000)"
  by (simp add: coerceDeadline_def truncate_rat_def)

lemma reference_deadline_iso:
  "coerceDeadline reference_platform (Str ''2023-11-14T00:00:00Z'')
     = Inr (TimeValue 1699920000000)"
  by (simp add: coerceDeadline_def truncate_rat_def reference_platform_def
      reference_StringToNumber_def ascii_trim_def is_space_def is_digit_def utc_ms_def
      digits_value_def DayFromYear_def month_lengths_def leap_year_def)

lemma reference_deadline_text:
  "coerceDeadline reference_platform (Str ''not-a-date'') = Inl InvalidDeadline"
  by (simp add: coerceDeadline_def reference_platform_def reference_StringToNumber_def
      ascii_trim_def is_space_def is_digit_def)

subsection \<open>Assignment\<close>

text \<open>
  C5. \<open>applyAssignment\<close>, given a task and a raw assignee identifier: when the
  identifier is the empty text, null or absent, the task gets \<open>assignedUser = null\<close> and
  \<open>assignedUserName = "unassigned"\<close> and no assignee is returned; when the identifier
  denotes no ObjectId it fails with \<open>InvalidAssigneeId\<close>; when no User has that id it
  fails with \<open>AssigneeNotFound\<close>; otherwise the task gets the user's id and name and the
  user's id is returned. The function reads the store and returns no store: it sends no
  write.
\<close>

theorem applyAssignment_spec:
  "(raw = Str [] \<or> raw = Null \<or> raw = Undefined \<longrightarrow>
      applyAssignment pf s t raw
        = Inr (t\<lparr>assignedUser := None, assignedUserName := ''unassigned''\<rparr>, None))
   \<and> (raw \<noteq> Str [] \<and> raw \<noteq> Null \<and> raw \<noteq> Undefined \<and> ObjectId_of pf raw = None \<longrightarrow>
      applyAssignment pf s t raw = Inl InvalidAssigneeId)
   \<and> (raw \<noteq> Str [] \<and> raw \<noteq> Null \<and> raw \<noteq> Undefined \<and> ObjectId_of pf raw = Some i
        \<and> User_findById i s = None \<longrightarrow>
      applyAssignment pf s t raw = Inl AssigneeNotFound)
   \<and> (raw \<noteq> Str [] \<and> raw \<noteq> Null \<and> raw \<noteq> Undefined \<and> ObjectId_of pf raw = Some i
        \<and> User_findById i s = Some u \<longrightarrow>
      user_id u = i
      \<and> applyAssignment pf s t raw
          = Inr (t\<lparr>assignedUser := Some i, assignedUserName := user_name u\<rparr>, Some i))"
  using User_findById_id [of i s u]
  by (auto simp: applyAssignment_def nullish_iff)

theorem applyAssignment_spec_witness:
  "applyAssignment reference_platform example_store task2 (Str [])
     = Inr (task2\<lparr>assignedUser := None, assignedUserName := ''unassigned''\<rparr>, None)
   \<and> applyAssignment reference_platform example_store task2 (Str ''42'')
     = Inl InvalidAssigneeId
   \<and> applyAssignment reference_platform example_store task2
       (Str ''507f1f77bcf86cd799439099'') = Inl AssigneeNotFound
   \<and> applyAssignment reference_platform example_store task2
       (Str ''507F1F77BCF86CD799439011'')
     = Inr (task2\<lparr>assignedUser := Some alice_id, assignedUserName := ''A''\<rparr>, Some alice_id)"
  using applyAssignment_spec [where raw = "Str []" and pf = reference_platform
      and s = example_store and t = task2]
    applyAssignment_spec [where raw = "Str ''42''" and pf = reference_platform
      and s = example_store and t = task2]
    applyAssignment_spec [where raw = "Str ''507f1f77bcf86cd799439099''"
      and pf = reference_platform and i = "''507f1f77bcf86cd799439099''"
      and s = example_store and t = task2]
    applyAssignment_spec [where raw = "Str ''507F1F77BCF86CD799439011''"
      and pf = reference_platform and i = alice_id
      and s = example_store and t = task2 and u = alice]
    reference_ObjectId_short reference_ObjectId_unknown reference_ObjectId_alice_upper
    example_find_unknown example_find_alice
  by (simp add: alice_def)

subsection \<open>Deadlines\<close>

text \<open>
  C7, as the code has it. \<open>coerceDeadline\<close> returns a \<open>Date\<close> unchanged. Any other
  value is first read as a number of epoch milliseconds: when \<open>Number(val)\<close> is a
  number, the deadline is that time value, and the call fails with \<open>InvalidDeadline\<close>
  when it is no valid time value. When \<open>Number(val)\<close> is not-a-number, a text is parsed
  as a date text, and the call fails with \<open>InvalidDeadline\<close> when that gives no valid
  time value; a value that is not a text fails. On the reference platform,
  \<open>coerceDeadline(1700000000000)\<close> is the time value 1700000000000 and
  \<open>coerceDeadline("2023-11-14T00:00:00Z")\<close> is the time value 1699920000000, both
  valid, and \<open>coerceDeadline("not-a-date")\<close> fails with \<open>InvalidDeadline\<close>.
\<close>

theorem coerceDeadline_spec:
  "coerceDeadline pf (DateV d) = Inr d
   \<and> ((\<forall>x. val \<noteq> DateV x) \<and> ToNumber pf val \<noteq> NaN \<longrightarrow>
        coerceDeadline pf val
          = (if TimeClip (ToNumber pf val) = InvalidDate then Inl InvalidDeadline
             else Inr (TimeClip (ToNumber pf val))))
   \<and> (StringToNumber pf str = NaN \<longrightarrow>
        coerceDeadline pf (Str str)
          = (if TimeClip (Date_parse pf str) = InvalidDate then Inl InvalidDeadline
             else Inr (TimeClip (Date_parse pf str))))
   \<and> ((\<forall>x. val \<noteq> DateV x) \<and> (\<forall>x. val \<noteq> Str x) \<and> ToNumber pf val = NaN \<longrightarrow>
        coerceDeadline pf val = Inl InvalidDeadline)
   \<and> coerceDeadline reference_platform (Num (Finite 1700000000000))
       = Inr (TimeValue 1700000000000)
   \<and> coerceDeadline reference_platform (Str ''2023-11-14T00:00:00Z'')
       = Inr (TimeValue 1699920000000)
   \<and> coerceDeadline reference_platform (Str ''not-a-date'') = Inl InvalidDeadline"
proof -
  have a: "coerceDeadline pf (DateV d) = Inr d"
    by (simp add: coerceDeadline_def)
  have b: "(\<forall>x. val \<noteq> DateV x) \<and> ToNumber pf val \<noteq> NaN \<longrightarrow>
        coerceDeadline pf val
          = (if TimeClip (ToNumber pf val) = InvalidDate then Inl InvalidDeadline
             else Inr (TimeClip (ToNumber pf val)))"
    by (cases val) (simp_all add: coerceDeadline_def Let_def)
  have c: "StringToNumber pf str = NaN \<longrightarrow>
        coerceDeadline pf (Str str)
          = (if TimeClip (Date_parse pf str) = InvalidDate then Inl InvalidDeadline
             else Inr (TimeClip (Date_parse pf str)))"
    by (simp add: coerceDeadline_def Let_def)
  have d: "(\<forall>x. val \<noteq> DateV x) \<and> (\<forall>x. val \<noteq> Str x) \<and> ToNumber pf val = NaN \<longrightarrow>
        coerceDeadline pf val = Inl InvalidDeadline"
    by (cases val) (simp_all add: coerceDeadline_def Let_def)
  from a b c d reference_deadline_number reference_deadline_iso reference_deadline_text
  show ?thesis by blast
qed

theorem coerceDeadline_spec_witness:
  "coerceDeadline reference_platform (DateV (TimeValue 5)) = Inr (TimeValue 5)
   \<and> coerceDeadline reference_platform (Str ''86400000'') = Inr (TimeValue 86400000)
   \<and> coerceDeadline reference_platform (Num (Finite 9000000000000000)) = Inl InvalidDeadline
   \<and> coerceDeadline reference_platform (Str ''1970-01-02T00:00:00Z'')
       = Inr (TimeValue 86400000)
   \<and> coerceDeadline reference_platform (Str ''1970-13-02T00:00:00Z'') = Inl InvalidDeadline
   \<and> coerceDeadline reference_platform Undefined = Inl InvalidDeadline"
proof -
  have n1: "ToNumber reference_platform (Str ''86400000'') = Finite 86400000"
    by (simp add: reference_platform_def reference_StringToNumber_def ascii_trim_def
        is_space_def is_digit_def digits_value_def)
  have n2: "StringToNumber reference_platform ''1970-01-02T00:00:00Z'' = NaN"
    by (simp add: reference_platform_def reference_StringToNumber_def ascii_trim_def
        is_space_def is_digit_def)
  have n3: "StringToNumber reference_platform ''1970-13-02T00:00:00Z'' = NaN"
    by (simp add: reference_platform_def reference_StringToNumber_def ascii_trim_def
        is_space_def is_digit_def)
  have p2: "Date_parse reference_platform ''1970-01-02T00:00:00Z'' = Finite 86400000"
    by (simp add: reference_platform_def is_digit_def utc_ms_def digits_value_def
        DayFromYear_def month_lengths_def leap_year_def)
  have p3: "Date_parse reference_platform ''1970-13-02T00:00:00Z'' = NaN"
    by (simp add: reference_platform_def is_digit_def utc_ms_def digits_value_def)
  show ?thesis
    using coerceDeadline_spec [where pf = reference_platform and d = "TimeValue 5"
        and val = "Str ''86400000''" and str = "''1970-01-02T00:00:00Z''"]
      coerceDeadline_spec [where pf = reference_platform
        and val = "Num (Finite 9000000000000000)" and str = "''1970-13-02T00:00:00Z''"]
      coerceDeadline_spec [where pf = reference_platform and val = Undefined]
      n1 n2 n3 p2 p3
    by (simp add: truncate_rat_def)
qed

theorem coerceDeadline_same_timestamp_counterexample:
  "coerceDeadline reference_platform (Num (Finite 1700000000000))
     \<noteq> coerceDeadline reference_platform (Str ''2023-11-14T00:00:00Z'')"
  by (simp add: reference_deadline_number reference_deadline_iso)

subsection \<open>Query parsing\<close>

lemma obj_get_delete_same: "obj_get (obj_delete kvs k) k = None"
  by (induction kvs) (auto simp: obj_get_def obj_delete_def)

lemma obj_get_delete_other: "k' \<noteq> k \<Longrightarrow> obj_get (obj_delete kvs k) k' = obj_get kvs k'"
  by (induction kvs) (auto simp: obj_get_def obj_delete_def)

lemma obj_get_set_same: "obj_get (obj_set kvs k v) k = Some v"
  by (induction kvs) (auto simp: obj_get_def)

lemma obj_get_set_other: "k' \<noteq> k \<Longrightarrow> obj_get (obj_set kvs k v) k' = obj_get kvs k'"
  by (induction kvs) (auto simp: obj_get_def)

lemma rawWhere_name:
  "rawWhere q = Some w \<Longrightarrow>
     (if rawWhere q = q_where q then ''where'' else ''filter'')
       = (if q_where q \<noteq> None then ''where'' else ''filter'')"
  by (auto simp: rawWhere_def split: option.splits)

lemma parse_where_malformed:
  "rawWhere q = Some w \<Longrightarrow> w \<noteq> [] \<Longrightarrow> JSON_parse pf w = None \<Longrightarrow>
     parse_where pf q = Inl (MalformedQuery (if q_where q \<noteq> None then ''where'' else ''filter''))"
  using rawWhere_name [of q w]
  by (simp add: parse_where_def parseJSONParam_def)

lemma parseQueryParams_malformed_where:
  "rawWhere q = Some w \<Longrightarrow> w \<noteq> [] \<Longrightarrow> JSON_parse pf w = None \<Longrightarrow>
     parseQueryParams pf q dl = Inl SyntaxError"
  by (simp add: parseQueryParams_def)

lemma reference_JSON_parse_values:
  \<open>JSON_parse reference_platform [] = None\<close>
  \<open>JSON_parse reference_platform ''{bad'' = None\<close>
  \<open>JSON_parse reference_platform ''null'' = Some JNull\<close>
  \<open>JSON_parse reference_platform ''{"completed":true}'' = Some (JObj [(''completed'', JBool True)])\<close>
  \<open>JSON_parse reference_platform ''{"name":1}'' = Some (JObj [(''name'', JNum (Finite 1))])\<close>
  \<open>JSON_parse reference_platform ''{"_id":1}'' = Some (JObj [(''_id'', JNum (Finite 1))])\<close>
  \<open>JSON_parse reference_platform ''{"_id":2}'' = Some (JObj [(''_id'', JNum (Finite 2))])\<close>
  \<open>JSON_parse reference_platform ''{"_id":"1"}'' = Some (JObj [(''_id'', JStr ''1'')])\<close>
  \<open>JSON_parse reference_platform ''{"_id":0,"completed":true}''
     = Some (JObj [(''_id'', JNum (Finite 0)), (''completed'', JBool True)])\<close>
  by (simp_all add: reference_platform_def reference_JSON_parse_def)

text \<open>
  C1, as the code has it. In \<open>parseQueryWithFilterAlias\<close>, when the value of
  \<open>where\<close> (or, when \<open>where\<close> is absent, of \<open>filter\<close>) is a non-empty text that is
  not valid JSON, parsing fails with \<open>MalformedQuery\<close> naming that key. In both
  parsers, when every parameter that is present is well-formed JSON (an empty
  \<open>where\<close>/\<open>filter\<close> text counts as absent), parsing succeeds with the same
  descriptor: its \<open>where\<close> is the parsed JSON, or the empty object for an absent or
  empty text, and its \<open>sort\<close> and \<open>select\<close> are the parsed JSON when that value is
  truthy and are absent when it is falsy (null, false, 0, the empty text).
\<close>

theorem parse_query_spec:
  "(rawWhere q = Some w \<and> w \<noteq> [] \<and> JSON_parse pf w = None \<longrightarrow>
      parseQueryWithFilterAlias pf q dl
        = Inl (MalformedQuery (if q_where q \<noteq> None then ''where'' else ''filter'')))
   \<and> ((rawWhere q = None \<or> rawWhere q = Some [] \<or> JSON_parse pf (the (rawWhere q)) \<noteq> None)
       \<and> (q_sort q = None \<or> JSON_parse pf (the (q_sort q)) \<noteq> None)
       \<and> (q_select q = None \<or> JSON_parse pf (the (q_select q)) \<noteq> None) \<longrightarrow>
      (\<exists>d. parseQueryWithFilterAlias pf q dl = Inr d \<and> parseQueryParams pf q dl = Inr d
        \<and> d_where d = (if rawWhere q = None \<or> rawWhere q = Some [] then Some (JObj [])
                       else JSON_parse pf (the (rawWhere q)))
        \<and> d_sort d = (if q_sort q = None then None
                      else if json_truthy (the (JSON_parse pf (the (q_sort q))))
                           then JSON_parse pf (the (q_sort q)) else None)
        \<and> d_select d = (if q_select q = None then None
                        else if json_truthy (the (JSON_parse pf (the (q_select q))))
                             then JSON_parse pf (the (q_select q)) else None)))"
proof (intro conjI impI)
  assume "rawWhere q = Some w \<and> w \<noteq> [] \<and> JSON_parse pf w = None"
  then show "parseQueryWithFilterAlias pf q dl
        = Inl (MalformedQuery (if q_where q \<noteq> None then ''where'' else ''filter''))"
    using parse_where_malformed [of q w pf]
    by (simp add: parseQueryWithFilterAlias_def)
next
  assume a: "(rawWhere q = None \<or> rawWhere q = Some [] \<or> JSON_parse pf (the (rawWhere q)) \<noteq> None)
       \<and> (q_sort q = None \<or> JSON_parse pf (the (q_sort q)) \<noteq> None)
       \<and> (q_select q = None \<or> JSON_parse pf (the (q_select q)) \<noteq> None)"
  define wv where "wv = (if rawWhere q = None \<or> rawWhere q = Some [] then Some (JObj [])
                       else JSON_parse pf (the (rawWhere q)))"
  define sv where "sv = (if q_sort q = None then None else JSON_parse pf (the (q_sort q)))"
  define ev where "ev = (if q_select q = None then None else JSON_parse pf (the (q_select q)))"
  define d where "d = \<lparr>d_where = wv, d_sort = or_undefined sv, d_select = or_undefined ev,
      d_skip = finite_or pf (q_skip q) (Finite 0),
      d_limit = finite_or pf (q_limit q) (case dl of None \<Rightarrow> Finite 0 | Some l \<Rightarrow> l),
      d_count = is_true_text (q_count q)\<rparr>"
  have w1: "parse_where pf q = Inr wv"
    using a by (auto simp: wv_def parse_where_def parseJSONParam_def)
  have w2: "(if rawWhere q \<noteq> None \<and> rawWhere q \<noteq> Some []
            then (case JSON_parse pf (the (rawWhere q)) of
                    None \<Rightarrow> Inl SyntaxError
                  | Some j \<Rightarrow> Inr (Some j))
            else Inr (Some (JObj []))) = Inr wv"
    using a by (auto simp: wv_def)
  have so: "parseJSONParam pf (q_sort q) ''sort'' = Inr sv"
    using a by (auto simp: parseJSONParam_def sv_def)
  have se: "parseJSONParam pf (q_select q) ''select'' = Inr ev"
    using a by (auto simp: parseJSONParam_def ev_def)
  have r1: "parseQueryWithFilterAlias pf q dl = Inr d"
    unfolding parseQueryWithFilterAlias_def w1 so se by (simp add: d_def)
  have r2: "parseQueryParams pf q dl = Inr d"
    unfolding parseQueryParams_def w2 so se by (simp add: d_def)
  have o1: "d_sort d = (if q_sort q = None then None
                 else if json_truthy (the (JSON_parse pf (the (q_sort q))))
                      then JSON_parse pf (the (q_sort q)) else None)"
    using a by (auto simp: d_def sv_def or_undefined_def)
  have o2: "d_select d = (if q_select q = None then None
                 else if json_truthy (the (JSON_parse pf (the (q_select q))))
                      then JSON_parse pf (the (q_select q)) else None)"
    using a by (auto simp: d_def ev_def or_undefined_def)
  have o3: "d_where d = (if rawWhere q = None \<or> rawWhere q = Some [] then Some (JObj [])
                       else JSON_parse pf (the (rawWhere q)))"
    by (simp add: d_def wv_def)
  from r1 r2 o1 o2 o3
  show "\<exists>d. parseQueryWithFilterAlias pf q dl = Inr d \<and> parseQueryParams pf q dl = Inr d
        \<and> d_where d = (if rawWhere q = None \<or> rawWhere q = Some [] then Some (JObj [])
                       else JSON_parse pf (the (rawWhere q)))
        \<and> d_sort d = (if q_sort q = None then None
                      else if json_truthy (the (JSON_parse pf (the (q_sort q))))
                           then JSON_parse pf (the (q_sort q)) else None)
        \<and> d_select d = (if q_select q = None then None
                        else if json_truthy (the (JSON_parse pf (the (q_select q))))
                             then JSON_parse pf (the (q_select q)) else None)"
    by blast
qed

theorem parse_query_spec_witness:
  \<open>parseQueryWithFilterAlias reference_platform (empty_query\<lparr>q_filter := Some ''{bad''\<rparr>) None
     = Inl (MalformedQuery ''filter'')
   \<and> parseQueryWithFilterAlias reference_platform (example_query\<lparr>q_where := Some ''{bad''\<rparr>) None
     = Inl (MalformedQuery ''where'')
   \<and> (\<exists>d. parseQueryWithFilterAlias reference_platform example_query None = Inr d
         \<and> parseQueryParams reference_platform example_query None = Inr d
         \<and> d_where d = Some (JObj [(''completed'', JBool True)])
         \<and> d_sort d = Some (JObj [(''name'', JNum (Finite 1))])
         \<and> d_select d = None)\<close>
  using parse_query_spec [where pf = reference_platform and dl = None
      and q = "empty_query\<lparr>q_filter := Some ''{bad''\<rparr>" and w = "''{bad''"]
    parse_query_spec [where pf = reference_platform and dl = None
      and q = "example_query\<lparr>q_where := Some ''{bad''\<rparr>" and w = "''{bad''"]
    parse_query_spec [where pf = reference_platform and dl = None and q = example_query]
  by (simp add: reference_JSON_parse_values rawWhere_def example_query_def empty_query_def)

theorem parse_query_counterexample:
  \<open>JSON_parse reference_platform [] = None
   \<and> JSON_parse reference_platform ''null'' = Some JNull
   \<and> parseQueryWithFilterAlias reference_platform
        (empty_query\<lparr>q_where := Some [], q_sort := Some ''null''\<rparr>) None
      = Inr \<lparr>d_where = Some (JObj []), d_sort = None, d_select = None, d_skip = Finite 0,
             d_limit = Finite 0, d_count = False\<rparr>\<close>
  by (simp add: reference_JSON_parse_values parseQueryWithFilterAlias_def parse_where_def
      rawWhere_def empty_query_def parseJSONParam_def or_undefined_def finite_or_def
      unary_plus_def is_true_text_def toLowerCase_def lower_char_def)

text \<open>
  C6. In both list handlers, when the parsed \<open>where\<close> is an object whose own key
  \<open>_id\<close> holds exactly the number 1 or the number 0, the key leaves \<open>where\<close> (the
  other keys stay) and \<open>select\<close> becomes an object that holds \<open>_id\<close> with that
  number beside the fields of the parsed \<open>select\<close>; for every other value of
  \<open>where._id\<close>, and for a \<open>where\<close> without the key or that is no object, \<open>where\<close>
  and \<open>select\<close> are the parsed values.
\<close>

theorem id_projection_rule:
  assumes w: "parse_where pf q = Inr (Some wv)"
    and se: "parseJSONParam pf (q_select q) ''select'' = Inr sel"
    and so: "parseJSONParam pf (q_sort q) ''sort'' = Inr srt"
  shows "\<exists>dt du. get_tasks_query pf q = Inr dt \<and> get_users_query pf q = Inr du
     \<and> d_where du = d_where dt \<and> d_select du = d_select dt
     \<and> (case wv of
          JObj kvs \<Rightarrow>
            if obj_get kvs ''_id'' = Some (JNum (Finite 1))
               \<or> obj_get kvs ''_id'' = Some (JNum (Finite 0))
            then d_where dt = Some (JObj (obj_delete kvs ''_id''))
               \<and> obj_get (obj_delete kvs ''_id'') ''_id'' = None
               \<and> (\<forall>k. k \<noteq> ''_id'' \<longrightarrow> obj_get (obj_delete kvs ''_id'') k = obj_get kvs k)
               \<and> (\<exists>fields. d_select dt = Some (JObj fields)
                     \<and> obj_get fields ''_id'' = obj_get kvs ''_id''
                     \<and> (\<forall>k. k \<noteq> ''_id'' \<longrightarrow>
                            obj_get fields k = obj_get (spread (or_undefined sel)) k))
            else d_where dt = Some wv \<and> d_select dt = or_undefined sel
        | _ \<Rightarrow> d_where dt = Some wv \<and> d_select dt = or_undefined sel)"
proof -
  define d0 where "d0 = \<lparr>d_where = Some wv, d_sort = or_undefined srt,
      d_select = or_undefined sel, d_skip = finite_or pf (q_skip q) (Finite 0),
      d_limit = finite_or pf (q_limit q) (Finite 100), d_count = is_true_text (q_count q)\<rparr>"
  define d1 where "d1 = d0\<lparr>d_limit := finite_or pf (q_limit q) (Finite 0)\<rparr>"
  define moved where "moved = (\<lambda>kvs (d::descriptor).
      d\<lparr>d_select := Some (JObj (obj_set (spread (or_undefined sel)) ''_id''
                                 (the (obj_get kvs ''_id'')))),
        d_where := Some (JObj (obj_delete kvs ''_id''))\<rparr>)"
  define pick where "pick = (\<lambda>d::descriptor.
      case wv of
        JObj kvs \<Rightarrow> if is_one_or_zero (obj_get kvs ''_id'') then moved kvs d else d
      | _ \<Rightarrow> d)"
  have t: "get_tasks_query pf q = Inr (pick d0)"
    unfolding get_tasks_query_def w se so
    by (cases wv) (auto simp: pick_def d0_def moved_def Let_def is_one_or_zero_def)
  have u: "get_users_query pf q = Inr (pick d1)"
    unfolding get_users_query_def w se so
    by (cases wv) (auto simp: pick_def d0_def d1_def moved_def Let_def is_one_or_zero_def)
  have same: "d_where (pick d1) = d_where (pick d0)" "d_select (pick d1) = d_select (pick d0)"
    by (cases wv; simp add: pick_def d1_def moved_def)+
  have rule: "(case wv of
          JObj kvs \<Rightarrow>
            if obj_get kvs ''_id'' = Some (JNum (Finite 1))
               \<or> obj_get kvs ''_id'' = Some (JNum (Finite 0))
            then d_where (pick d0) = Some (JObj (obj_delete kvs ''_id''))
               \<and> obj_get (obj_delete kvs ''_id'') ''_id'' = None
               \<and> (\<forall>k. k \<noteq> ''_id'' \<longrightarrow> obj_get (obj_delete kvs ''_id'') k = obj_get kvs k)
               \<and> (\<exists>fields. d_select (pick d0) = Some (JObj fields)
                     \<and> obj_get fields ''_id'' = obj_get kvs ''_id''
                     \<and> (\<forall>k. k \<noteq> ''_id'' \<longrightarrow>
                            obj_get fields k = obj_get (spread (or_undefined sel)) k))
            else d_where (pick d0) = Some wv \<and> d_select (pick d0) = or_undefined sel
        | _ \<Rightarrow> d_where (pick d0) = Some wv \<and> d_select (pick d0) = or_undefined sel)"
    by (cases wv)
      (auto simp: pick_def d0_def moved_def is_one_or_zero_def obj_get_delete_same
        obj_get_delete_other obj_get_set_same obj_get_set_other)
  from t u same rule show ?thesis by blast
qed

theorem id_projection_rule_witness:
  \<open>(\<exists>dt du.
      get_tasks_query reference_platform (example_query\<lparr>q_where := Some ''{"_id":1}''\<rparr>) = Inr dt
      \<and> get_users_query reference_platform (example_query\<lparr>q_where := Some ''{"_id":1}''\<rparr>)
          = Inr du
      \<and> d_where du = d_where dt \<and> d_select du = d_select dt
      \<and> d_where dt = Some (JObj [])
      \<and> (\<exists>fields. d_select dt = Some (JObj fields)
            \<and> obj_get fields ''_id'' = Some (JNum (Finite 1))
            \<and> (\<forall>k. k \<noteq> ''_id'' \<longrightarrow> obj_get fields k = None)))
   \<and> (\<exists>dt du.
      get_tasks_query reference_platform
        (example_query\<lparr>q_where := Some ''{"_id":0,"completed":true}'',
                       q_select := Some ''{"name":1}''\<rparr>) = Inr dt
      \<and> get_users_query reference_platform
        (example_query\<lparr>q_where := Some ''{"_id":0,"completed":true}'',
                       q_select := Some ''{"name":1}''\<rparr>) = Inr du
      \<and> d_where du = d_where dt \<and> d_select du = d_select dt
      \<and> d_where dt = Some (JObj [(''completed'', JBool True)])
      \<and> (\<exists>fields. d_select dt = Some (JObj fields)
            \<and> obj_get fields ''_id'' = Some (JNum (Finite 0))
            \<and> (\<forall>k. k \<noteq> ''_id'' \<longrightarrow> obj_get fields k = obj_get [(''name'', JNum (Finite 1))] k)))
   \<and> (\<exists>dt du.
      get_tasks_query reference_platform (example_query\<lparr>q_where := Some ''{"_id":"1"}''\<rparr>)
          = Inr dt
      \<and> get_users_query reference_platform (example_query\<lparr>q_where := Some ''{"_id":"1"}''\<rparr>)
          = Inr du
      \<and> d_where du = d_where dt \<and> d_select du = d_select dt
      \<and> d_where dt = Some (JObj [(''_id'', JStr ''1'')]) \<and> d_select dt = None)
   \<and> (\<exists>dt du.
      get_tasks_query reference_platform (example_query\<lparr>q_where := Some ''{"_id":2}''\<rparr>) = Inr dt
      \<and> get_users_query reference_platform (example_query\<lparr>q_where := Some ''{"_id":2}''\<rparr>)
          = Inr du
      \<and> d_where du = d_where dt \<and> d_select du = d_select dt
      \<and> d_where dt = Some (JObj [(''_id'', JNum (Finite 2))]) \<and> d_select dt = None)\<close>
proof -
  have w: "parse_where reference_platform (example_query\<lparr>q_where := Some t, q_select := e\<rparr>)
      = Inr (Some j)"
    if "t \<noteq> []" and "JSON_parse reference_platform t = Some j" for t e j
    using that by (simp add: parse_where_def rawWhere_def parseJSONParam_def)
  have w': "parse_where reference_platform (example_query\<lparr>q_where := Some t\<rparr>) = Inr (Some j)"
    if "t \<noteq> []" and "JSON_parse reference_platform t = Some j" for t j
    using that by (simp add: parse_where_def rawWhere_def parseJSONParam_def)
  have e0: \<open>parseJSONParam reference_platform
              (q_select (example_query\<lparr>q_where := Some t, q_select := Some ''{"name":1}''\<rparr>))
              ''select'' = Inr (Some (JObj [(''name'', JNum (Finite 1))]))\<close> for t
    by (simp add: parseJSONParam_def reference_JSON_parse_values)
  have e1: "parseJSONParam reference_platform (q_select (example_query\<lparr>q_where := Some t\<rparr>))
              ''select'' = Inr (Some JNull)" for t
    by (simp add: example_query_def parseJSONParam_def reference_JSON_parse_values)
  have o0: \<open>parseJSONParam reference_platform
              (q_sort (example_query\<lparr>q_where := Some t, q_select := e\<rparr>)) ''sort''
            = Inr (Some (JObj [(''name'', JNum (Finite 1))]))\<close> for t e
    by (simp add: example_query_def parseJSONParam_def reference_JSON_parse_values)
  have o1: \<open>parseJSONParam reference_platform (q_sort (example_query\<lparr>q_where := Some t\<rparr>))
              ''sort'' = Inr (Some (JObj [(''name'', JNum (Finite 1))]))\<close> for t
    by (simp add: example_query_def parseJSONParam_def reference_JSON_parse_values)
  have a: \<open>parse_where reference_platform (example_query\<lparr>q_where := Some ''{"_id":1}''\<rparr>)
            = Inr (Some (JObj [(''_id'', JNum (Finite 1))]))\<close>
    by (rule w') (simp_all add: reference_JSON_parse_values)
  have b: \<open>parse_where reference_platform
              (example_query\<lparr>q_where := Some ''{"_id":0,"completed":true}'',
                             q_select := Some ''{"name":1}''\<rparr>)
            = Inr (Some (JObj [(''_id'', JNum (Finite 0)), (''completed'', JBool True)]))\<close>
    by (rule w) (simp_all add: reference_JSON_parse_values)
  have c: \<open>parse_where reference_platform (example_query\<lparr>q_where := Some ''{"_id":"1"}''\<rparr>)
            = Inr (Some (JObj [(''_id'', JStr ''1'')]))\<close>
    by (rule w') (simp_all add: reference_JSON_parse_values)
  have d: \<open>parse_where reference_platform (example_query\<lparr>q_where := Some ''{"_id":2}''\<rparr>)
            = Inr (Some (JObj [(''_id'', JNum (Finite 2))]))\<close>
    by (rule w') (simp_all add: reference_JSON_parse_values)
  show ?thesis
    using id_projection_rule [OF a e1 o1] id_projection_rule [OF b e0 o0]
      id_projection_rule [OF c e1 o1] id_projection_rule [OF d e1 o1]
    by (simp add: obj_get_def obj_delete_def or_undefined_def)
qed

subsection \<open>The handlers\<close>

lemma find_filter_None: "find (\<lambda>d. user_id d = i) (filter (\<lambda>d. user_id d \<noteq> i) us) = None"
  by (induction us) auto

lemma TimeClip_zero: "TimeClip (Finite 0) = TimeValue 0"
  by (simp add: truncate_rat_def)

lemma applyAssignment_result:
  assumes "applyAssignment pf s t raw = Inr (t', a)"
  shows "assignedUser t' = a" and "task_id t' = task_id t" and "task_name t' = task_name t"
    and "deadline t' = deadline t" and "a = Some c \<Longrightarrow> \<exists>u. User_findById c s = Some u"
  using assms User_findById_id [of _ s]
  by (auto simp: applyAssignment_def split: if_splits option.splits)

lemma applyAssignment_total:
  assumes "raw = Str [] \<or> nullish raw
      \<or> (\<exists>ui u. ObjectId_of pf raw = Some ui \<and> User_findById ui s = Some u)"
  shows "\<exists>t' a. applyAssignment pf s t raw = Inr (t', a)"
  using assms by (auto simp: applyAssignment_def)

lemma reference_trim_example: "String_trim reference_platform ''  New task '' = ''New task''"
  by (simp add: reference_trim ascii_trim_def is_space_def)

lemma example_no_fresh_task: "Task_findById fresh_id example_store = None"
  by (simp add: Task_findById_def example_store_def task1_def task2_def task3_def)

lemma example_find_task1: "Task_findById task1_id example_store = Some task1"
  by (simp add: Task_findById_def example_store_def task1_def)

lemma reference_ObjectId_task1:
  "ObjectId_of reference_platform (Str task1_id) = Some task1_id"
  by (simp add: reference_platform_def is_hex_def is_digit_def toLowerCase_def lower_char_def)

lemma reference_Number_empty: "StringToNumber reference_platform [] = Finite 0"
  by (simp add: reference_platform_def reference_StringToNumber_def ascii_trim_def)

text \<open>
  C4. Deleting an existing User: the handler first sends the bulk update that sets
  \<open>assignedUser = null\<close> and \<open>assignedUserName = "unassigned"\<close> on every Task whose
  \<open>assignedUser\<close> is that User, then deletes the User. Afterwards every such Task is
  changed so, the other Tasks are as before, no Task references the User, and the User
  is not found.
\<close>

theorem delete_user_spec:
  assumes valid: "ObjectId_of pf (Str i) = Some ui"
    and found: "User_findById ui s = Some u"
  shows "\<exists>s'. delete_user pf i s = (Json 204 ''No Content'' NoData, s')
     \<and> journal s' = journal s @ [TaskUnassignAll ui, UserDelete ui]
     \<and> tasks s' = map (\<lambda>t. if assignedUser t = Some ui
                             then t\<lparr>assignedUser := None, assignedUserName := ''unassigned''\<rparr>
                             else t) (tasks s)
     \<and> filter (\<lambda>t. assignedUser t = Some ui) (tasks s') = []
     \<and> users s' = filter (\<lambda>d. user_id d \<noteq> ui) (users s)
     \<and> User_findById ui s' = None"
proof -
  have id: "user_id u = ui"
    using found by (rule User_findById_id)
  define s' where "s' = User_delete ui (Task_unassignAll ui s)"
  have r: "delete_user pf i s = (Json 204 ''No Content'' NoData, s')"
    by (simp add: delete_user_def isValidObjectId_def valid found id s'_def)
  have j: "journal s' = journal s @ [TaskUnassignAll ui, UserDelete ui]"
    by (simp add: s'_def User_delete_def Task_unassignAll_def)
  have t: "tasks s' = map (\<lambda>t. if assignedUser t = Some ui
                             then t\<lparr>assignedUser := None, assignedUserName := ''unassigned''\<rparr>
                             else t) (tasks s)"
    by (simp add: s'_def User_delete_def Task_unassignAll_def unassign_def)
  have n: "filter (\<lambda>t. assignedUser t = Some ui) (tasks s') = []"
    unfolding t by (auto simp: filter_empty_conv)
  have us: "users s' = filter (\<lambda>d. user_id d \<noteq> ui) (users s)"
    by (simp add: s'_def User_delete_def Task_unassignAll_def)
  have gone: "User_findById ui s' = None"
    unfolding User_findById_def us by (rule find_filter_None)
  from r j t n us gone show ?thesis by blast
qed

theorem delete_user_spec_witness:
  "\<exists>s'. delete_user reference_platform alice_id example_store
            = (Json 204 ''No Content'' NoData, s')
     \<and> journal s' = [TaskUnassignAll alice_id, UserDelete alice_id]
     \<and> tasks s' = [task1\<lparr>assignedUser := None, assignedUserName := ''unassigned''\<rparr>, task2,
                    task3\<lparr>assignedUser := None, assignedUserName := ''unassigned''\<rparr>]
     \<and> users s' = [bob]
     \<and> User_findById alice_id s' = None"
  using delete_user_spec [OF reference_ObjectId_alice example_find_alice]
  by (auto simp: example_store_def task1_def task2_def task3_def alice_def bob_def)

text \<open>
  C10. Where \<open>Number("")\<close> is 0, \<open>coerceDeadline("")\<close> is the time value 0 and
  no failure; the empty text is not null or absent, so a request to create a Task with
  the deadline \<open>""\<close>, a name that the schema's trim does not leave empty and an
  assignee that is absent or resolves passes the check of the required fields and
  answers 201 with a Task whose deadline is the time value 0, which is stored.
\<close>

theorem empty_deadline_spec:
  assumes zero: "StringToNumber pf [] = Finite 0"
  shows "coerceDeadline pf (Str []) = Inr (TimeValue 0)
     \<and> \<not> nullish (Str [])
     \<and> (\<not> missing (b_name body) \<and> String_trim pf (the (b_name body)) \<noteq> []
         \<and> b_deadline body = Str []
         \<and> (b_assignedUser body = Str [] \<or> nullish (b_assignedUser body)
            \<or> (\<exists>ui u. ObjectId_of pf (b_assignedUser body) = Some ui
                       \<and> User_findById ui s = Some u))
         \<and> Task_findById new_id s = None \<longrightarrow>
        (\<exists>t s'. post_task pf new_id body s = (Json 201 ''Created'' (TaskData t), s')
           \<and> task_id t = new_id \<and> deadline t = TimeValue 0 \<and> tasks s' = tasks s @ [t]))"
proof -
  have cd: "coerceDeadline pf (Str []) = Inr (TimeValue 0)"
    by (simp add: coerceDeadline_def zero Let_def TimeClip_zero del: TimeClip.simps)
  have post: "\<exists>t s'. post_task pf new_id body s = (Json 201 ''Created'' (TaskData t), s')
           \<and> task_id t = new_id \<and> deadline t = TimeValue 0 \<and> tasks s' = tasks s @ [t]"
    if name: "\<not> missing (b_name body)" and tr: "String_trim pf (the (b_name body)) \<noteq> []"
      and dl: "b_deadline body = Str []"
      and asg: "b_assignedUser body = Str [] \<or> nullish (b_assignedUser body)
            \<or> (\<exists>ui u. ObjectId_of pf (b_assignedUser body) = Some ui
                       \<and> User_findById ui s = Some u)"
      and fresh: "Task_findById new_id s = None"
  proof -
    define t0 where "t0 = \<lparr>task_id = new_id, task_name = String_trim pf (the (b_name body)),
        description = (case b_description body of None \<Rightarrow> [] | Some x \<Rightarrow> x),
        deadline = TimeValue 0, completed = coerceCompleted (b_completed body) False,
        assignedUser = None, assignedUserName = ''unassigned'', dateCreated = Date_now pf\<rparr>"
    obtain t' a where ap: "applyAssignment pf s t0 (b_assignedUser body) = Inr (t', a)"
      using applyAssignment_total [OF asg] by blast
    have f: "task_id t' = new_id" "task_name t' = String_trim pf (the (b_name body))"
      "deadline t' = TimeValue 0"
      using applyAssignment_result [OF ap] by (simp_all add: t0_def)
    have ins: "Task_insert t' s
        = Inr (s\<lparr>tasks := tasks s @ [t'], journal := journal s @ [TaskInsert t']\<rparr>)"
      by (simp add: Task_insert_def task_valid_def f tr fresh)
    have "post_task pf new_id body s
        = (Json 201 ''Created'' (TaskData t'),
           (case a of None \<Rightarrow> s\<lparr>tasks := tasks s @ [t'], journal := journal s @ [TaskInsert t']\<rparr>
            | Some u \<Rightarrow> User_pushIfAbsent u (task_id t')
                (s\<lparr>tasks := tasks s @ [t'], journal := journal s @ [TaskInsert t']\<rparr>)))"
      using name ap ins by (simp add: post_task_def dl cd t0_def Let_def)
    moreover have "tasks (case a of None \<Rightarrow> s\<lparr>tasks := tasks s @ [t'], journal := journal s @ [TaskInsert t']\<rparr>
            | Some u \<Rightarrow> User_pushIfAbsent u (task_id t')
                (s\<lparr>tasks := tasks s @ [t'], journal := journal s @ [TaskInsert t']\<rparr>))
          = tasks s @ [t']"
      by (cases a) (simp_all add: User_pushIfAbsent_def)
    ultimately show ?thesis using f by blast
  qed
  from cd post show ?thesis by auto
qed

theorem empty_deadline_spec_witness:
  "coerceDeadline reference_platform (Str []) = Inr (TimeValue 0)
   \<and> (\<exists>t s'. post_task reference_platform fresh_id (create_body\<lparr>b_deadline := Str []\<rparr>)
                 example_store = (Json 201 ''Created'' (TaskData t), s')
         \<and> task_id t = fresh_id \<and> deadline t = TimeValue 0
         \<and> tasks s' = [task1, task2, task3, t])"
  using empty_deadline_spec [OF reference_Number_empty,
      where body = "create_body\<lparr>b_deadline := Str []\<rparr>" and s = example_store
        and new_id = fresh_id]
    reference_ObjectId_alice example_find_alice example_no_fresh_task reference_trim_example
  by (simp add: create_body_def missing_def example_store_def)

text \<open>
  C8. Updating an existing Task: when the body lacks a name or a deadline, when the
  deadline cannot be coerced, when the assignee id denotes no ObjectId and when no User
  has the assignee id, the handler answers with the error and the store it returns is
  the store it was given: no Task and no User is written. The same holds for every
  answer other than 200.
\<close>

theorem put_task_errors_leave_store:
  assumes valid: "ObjectId_of pf (Str i) = Some ti"
    and found: "Task_findById ti s = Some existing"
  shows "(missing (b_name body) \<or> nullish (b_deadline body) \<longrightarrow>
           put_task pf i body s = (Json 400 ''name and deadline are required'' NoData, s))
     \<and> (\<not> missing (b_name body) \<and> \<not> nullish (b_deadline body)
         \<and> coerceDeadline pf (b_deadline body) = Inl e \<longrightarrow>
           e = InvalidDeadline \<and> put_task pf i body s = (Next InvalidDeadline, s))
     \<and> (\<not> missing (b_name body) \<and> \<not> nullish (b_deadline body)
         \<and> coerceDeadline pf (b_deadline body) = Inr d
         \<and> b_assignedUser body \<noteq> Str [] \<and> \<not> nullish (b_assignedUser body)
         \<and> ObjectId_of pf (b_assignedUser body) = None \<longrightarrow>
           put_task pf i body s = (Next InvalidAssigneeId, s))
     \<and> (\<not> missing (b_name body) \<and> \<not> nullish (b_deadline body)
         \<and> coerceDeadline pf (b_deadline body) = Inr d
         \<and> b_assignedUser body \<noteq> Str [] \<and> \<not> nullish (b_assignedUser body)
         \<and> ObjectId_of pf (b_assignedUser body) = Some ui \<and> User_findById ui s = None \<longrightarrow>
           put_task pf i body s = (Next AssigneeNotFound, s))
     \<and> (\<forall>r s'. put_task pf i body s = (r, s') \<and> (\<forall>t. r \<noteq> Json 200 ''OK'' (TaskData t)) \<longrightarrow>
           s' = s)"
proof -
  have e: "coerceDeadline pf v = Inl e \<Longrightarrow> e = InvalidDeadline" for v
    by (auto simp: coerceDeadline_def Let_def split: jsval.splits if_splits)
  have a: "missing (b_name body) \<or> nullish (b_deadline body) \<longrightarrow>
           put_task pf i body s = (Json 400 ''name and deadline are required'' NoData, s)"
    by (auto simp: put_task_def isValidObjectId_def valid found)
  have b: "\<not> missing (b_name body) \<and> \<not> nullish (b_deadline body)
         \<and> coerceDeadline pf (b_deadline body) = Inl e \<longrightarrow>
           e = InvalidDeadline \<and> put_task pf i body s = (Next InvalidDeadline, s)"
    using e [of "b_deadline body"] by (auto simp: put_task_def isValidObjectId_def valid found)
  have c: "\<not> missing (b_name body) \<and> \<not> nullish (b_deadline body)
         \<and> coerceDeadline pf (b_deadline body) = Inr d
         \<and> b_assignedUser body \<noteq> Str [] \<and> \<not> nullish (b_assignedUser body)
         \<and> ObjectId_of pf (b_assignedUser body) = None \<longrightarrow>
           put_task pf i body s = (Next InvalidAssigneeId, s)"
    by (auto simp: put_task_def isValidObjectId_def valid found applyAssignment_def Let_def)
  have d: "\<not> missing (b_name body) \<and> \<not> nullish (b_deadline body)
         \<and> coerceDeadline pf (b_deadline body) = Inr d
         \<and> b_assignedUser body \<noteq> Str [] \<and> \<not> nullish (b_assignedUser body)
         \<and> ObjectId_of pf (b_assignedUser body) = Some ui \<and> User_findById ui s = None \<longrightarrow>
           put_task pf i body s = (Next AssigneeNotFound, s)"
    by (auto simp: put_task_def isValidObjectId_def valid found applyAssignment_def Let_def)
  have g: "\<forall>r s'. put_task pf i body s = (r, s') \<and> (\<forall>t. r \<noteq> Json 200 ''OK'' (TaskData t)) \<longrightarrow>
           s' = s"
    by (auto simp: put_task_def isValidObjectId_def valid found Let_def
        split: if_splits sum.splits prod.splits option.splits)
  from a b c d g show ?thesis by blast
qed

theorem put_task_errors_leave_store_witness:
  "put_task reference_platform task1_id (update_body\<lparr>b_name := None\<rparr>) example_store
     = (Json 400 ''name and deadline are required'' NoData, example_store)
   \<and> put_task reference_platform task1_id (update_body\<lparr>b_deadline := Null\<rparr>) example_store
     = (Json 400 ''name and deadline are required'' NoData, example_store)
   \<and> put_task reference_platform task1_id (update_body\<lparr>b_deadline := Str ''not-a-date''\<rparr>)
       example_store = (Next InvalidDeadline, example_store)
   \<and> put_task reference_platform task1_id (update_body\<lparr>b_assignedUser := Str ''42''\<rparr>)
       example_store = (Next InvalidAssigneeId, example_store)
   \<and> put_task reference_platform task1_id
       (update_body\<lparr>b_assignedUser := Str ''507f1f77bcf86cd799439099''\<rparr>) example_store
     = (Next AssigneeNotFound, example_store)"
  using put_task_errors_leave_store [OF reference_ObjectId_task1 example_find_task1,
      where body = "update_body\<lparr>b_name := None\<rparr>"]
    put_task_errors_leave_store [OF reference_ObjectId_task1 example_find_task1,
      where body = "update_body\<lparr>b_deadline := Null\<rparr>"]
    put_task_errors_leave_store [OF reference_ObjectId_task1 example_find_task1,
      where body = "update_body\<lparr>b_deadline := Str ''not-a-date''\<rparr>" and e = InvalidDeadline]
    put_task_errors_leave_store [OF reference_ObjectId_task1 example_find_task1,
      where body = "update_body\<lparr>b_assignedUser := Str ''42''\<rparr>"
        and d = "TimeValue 1699920000000"]
    put_task_errors_leave_store [OF reference_ObjectId_task1 example_find_task1,
      where body = "update_body\<lparr>b_assignedUser := Str ''507f1f77bcf86cd799439099''\<rparr>"
        and d = "TimeValue 1699920000000" and ui = "''507f1f77bcf86cd799439099''"]
    reference_deadline_text reference_deadline_iso reference_ObjectId_short
    reference_ObjectId_unknown example_find_unknown
  by (simp add: update_body_def missing_def)

subsection \<open>Keeping \<open>pendingTasks\<close> in step with the assignee\<close>

lemma find_update_first_key:
  assumes "\<And>d. user_id (f d) = user_id d"
  shows "find (\<lambda>d. user_id d = x) (update_first (\<lambda>d. user_id d = p \<and> Q d) f us)
     = map_option (\<lambda>d. if x = p \<and> Q d then f d else d) (find (\<lambda>d. user_id d = x) us)"
  using assms by (induction us) (auto simp: option.map_ident)

lemma User_findById_pull:
  "User_findById x (User_pull p t s)
     = map_option (\<lambda>d. if x = p then d\<lparr>pendingTasks := removeAll t (pendingTasks d)\<rparr> else d)
         (User_findById x s)"
  using find_update_first_key [where Q = "\<lambda>d. True" and x = x and p = p and us = "users s"
      and f = "\<lambda>d. d\<lparr>pendingTasks := removeAll t (pendingTasks d)\<rparr>"]
  by (simp add: User_findById_def User_pull_def)

lemma User_findById_push:
  "User_findById x (User_pushIfAbsent c t s)
     = map_option (\<lambda>d. if x = c \<and> t \<notin> set (pendingTasks d)
                        then d\<lparr>pendingTasks := pendingTasks d @ [t]\<rparr> else d)
         (User_findById x s)"
  using find_update_first_key [where Q = "\<lambda>d. t \<notin> set (pendingTasks d)" and x = x and p = c
      and us = "users s" and f = "\<lambda>d. d\<lparr>pendingTasks := pendingTasks d @ [t]\<rparr>"]
  by (simp add: User_findById_def User_pushIfAbsent_def)

lemma User_findById_replace: "User_findById x (Task_replace t s) = User_findById x s"
  by (simp add: User_findById_def Task_replace_def)

lemma put_task_ok_cases:
  assumes "put_task pf i body s = (Json 200 ''OK'' (TaskData t'), s')"
  shows "\<exists>existing a. Task_findById (task_id t') s = Some existing
     \<and> assignedUser t' = a \<and> (\<forall>c. a = Some c \<longrightarrow> (\<exists>u. User_findById c s = Some u))
     \<and> s' = (case a of
               None \<Rightarrow> (\<lambda>x. x)
             | Some c \<Rightarrow> if assignedUser existing \<noteq> a
                         then User_pushIfAbsent c (task_id t') else (\<lambda>x. x))
              ((case assignedUser existing of
                  None \<Rightarrow> (\<lambda>x. x)
                | Some p \<Rightarrow> if assignedUser existing \<noteq> a
                            then User_pull p (task_id t') else (\<lambda>x. x))
                 (Task_replace t' s))"
proof -
  from assms obtain ti where v: "ObjectId_of pf (Str i) = Some ti"
    by (auto simp: put_task_def isValidObjectId_def split: if_splits)
  from assms v obtain existing where f: "Task_findById ti s = Some existing"
    by (auto simp: put_task_def isValidObjectId_def split: option.splits)
  from assms v f have nm: "\<not> (missing (b_name body) \<or> nullish (b_deadline body))"
    by (auto simp: put_task_def isValidObjectId_def split: if_splits)
  from assms v f nm obtain d where cd: "coerceDeadline pf (b_deadline body) = Inr d"
    by (auto simp: put_task_def isValidObjectId_def Let_def split: sum.splits)
  define t0 where "t0 = existing\<lparr>task_name := String_trim pf (the (b_name body)),
      description := (case b_description body of None \<Rightarrow> [] | Some x \<Rightarrow> x),
      deadline := d, completed := coerceCompleted (b_completed body) False\<rparr>"
  from assms v f nm cd obtain t1 a
    where ap: "applyAssignment pf s t0 (b_assignedUser body) = Inr (t1, a)"
    by (auto simp: put_task_def isValidObjectId_def t0_def Let_def split: sum.splits)
  from assms v f nm cd ap have tv: "Task_save t1 s = Inr (Task_replace t1 s)"
    by (auto simp: put_task_def isValidObjectId_def t0_def Let_def Task_save_def split: sum.splits if_splits)
  from assms v f nm cd ap tv have t': "t' = t1"
    by (simp add: put_task_def isValidObjectId_def t0_def Let_def)
  have tid: "task_id t' = ti"
    using ap Task_findById_id [OF f]
    by (auto simp: t' t0_def applyAssignment_def split: if_splits option.splits)
  have au: "assignedUser t' = a"
    using ap by (auto simp: t' applyAssignment_def split: if_splits option.splits)
  have ex: "\<forall>c. a = Some c \<longrightarrow> (\<exists>u. User_findById c s = Some u)"
    using ap User_findById_id [of _ s]
    by (auto simp: applyAssignment_def split: if_splits option.splits)
  have s': "s' = (case a of
               None \<Rightarrow> (\<lambda>x. x)
             | Some c \<Rightarrow> if assignedUser existing \<noteq> a
                         then User_pushIfAbsent c (task_id t') else (\<lambda>x. x))
              ((case assignedUser existing of
                  None \<Rightarrow> (\<lambda>x. x)
                | Some p \<Rightarrow> if assignedUser existing \<noteq> a
                            then User_pull p (task_id t') else (\<lambda>x. x))
                 (Task_replace t' s))"
    using assms v f nm cd ap tv
    by (auto simp: put_task_def isValidObjectId_def t0_def [symmetric] Let_def t' split: option.splits)
  from f tid au ex s' show ?thesis by blast
qed

lemma post_task_ok_cases:
  assumes "post_task pf new_id body s = (Json 201 ''Created'' (TaskData t), s')"
  shows "task_id t = new_id \<and> task_valid t \<and> Task_findById new_id s = None
     \<and> (\<forall>c. assignedUser t = Some c \<longrightarrow> (\<exists>u. User_findById c s = Some u))
     \<and> s' = (case assignedUser t of None \<Rightarrow> (\<lambda>x. x)
              | Some c \<Rightarrow> User_pushIfAbsent c new_id)
               (s\<lparr>tasks := tasks s @ [t], journal := journal s @ [TaskInsert t]\<rparr>)"
proof -
  from assms have nm: "\<not> (missing (b_name body) \<or> nullish (b_deadline body))"
    by (auto simp: post_task_def split: if_splits)
  from assms nm obtain d where cd: "coerceDeadline pf (b_deadline body) = Inr d"
    by (auto simp: post_task_def split: sum.splits)
  define t0 where "t0 = \<lparr>task_id = new_id, task_name = String_trim pf (the (b_name body)),
      description = (case b_description body of None \<Rightarrow> [] | Some x \<Rightarrow> x),
      deadline = d, completed = coerceCompleted (b_completed body) False,
      assignedUser = None, assignedUserName = ''unassigned'', dateCreated = Date_now pf\<rparr>"
  from assms nm cd obtain t1 a
    where ap: "applyAssignment pf s t0 (b_assignedUser body) = Inr (t1, a)"
    by (auto simp: post_task_def t0_def Let_def split: sum.splits)
  from assms nm cd ap obtain s1 where ins: "Task_insert t1 s = Inr s1"
    by (auto simp: post_task_def t0_def [symmetric] Let_def split: sum.splits)
  from assms nm cd ap ins have t: "t = t1"
    and s': "s' = (case a of None \<Rightarrow> s1 | Some u \<Rightarrow> User_pushIfAbsent u (task_id t1) s1)"
    by (simp_all add: post_task_def t0_def [symmetric] Let_def)
  have r: "assignedUser t1 = a" "task_id t1 = new_id"
    using applyAssignment_result [OF ap] by (simp_all add: t0_def)
  have ex: "\<forall>c. assignedUser t = Some c \<longrightarrow> (\<exists>u. User_findById c s = Some u)"
    using applyAssignment_result(5) [OF ap] r by (simp add: t)
  have v: "task_valid t1" and fr: "Task_findById new_id s = None"
    and s1: "s1 = s\<lparr>tasks := tasks s @ [t1], journal := journal s @ [TaskInsert t1]\<rparr>"
    using ins r by (auto simp: Task_insert_def split: if_splits)
  from r v fr ex s' s1 show ?thesis
    by (cases a) (simp_all add: t)
qed

lemma count_list_snoc: "count_list (xs @ [y]) x = count_list xs x + (if x = y then 1 else 0)"
  by (induction xs) auto

lemma example_put_task_moves:
  "\<exists>s'. put_task reference_platform task1_id update_body example_store
          = (Json 200 ''OK'' (TaskData moved_task1), s')"
  by (simp add: put_task_def isValidObjectId_def reference_ObjectId_task1 example_find_task1 update_body_def
      missing_def reference_deadline_iso applyAssignment_def reference_ObjectId_bob
      example_find_bob Task_save_def task_valid_def reference_trim ascii_trim_def
      is_space_def Let_def
      moved_task1_def task1_def bob_def)

lemma example_put_task_stays:
  "\<exists>s'. put_task reference_platform task1_id (update_body\<lparr>b_assignedUser := Str alice_id\<rparr>)
            example_store
          = (Json 200 ''OK'' (TaskData renamed_task1), s')"
  by (simp add: put_task_def isValidObjectId_def reference_ObjectId_task1 example_find_task1 update_body_def
      missing_def reference_deadline_iso applyAssignment_def reference_ObjectId_alice
      example_find_alice Task_save_def task_valid_def reference_trim ascii_trim_def
      is_space_def Let_def
      renamed_task1_def task1_def alice_def)

lemma reference_now: "Date_now reference_platform = 1762041600000"
  by (simp add: reference_platform_def)

lemma example_post_task:
  "\<exists>s'. post_task reference_platform fresh_id create_body example_store
          = (Json 201 ''Created'' (TaskData created_task), s')"
  by (simp add: post_task_def create_body_def missing_def reference_deadline_number
      applyAssignment_def reference_ObjectId_alice example_find_alice Task_insert_def
      task_valid_def reference_trim_example example_no_fresh_task Let_def created_task_def
      alice_def toLowerCase_def lower_char_def reference_now)

text \<open>
  C2. An update of a Task that answers 200 saves the Task and then: when the assignee of
  the stored Task and the resolved assignee differ, it sends a pull of the Task id to
  the previous assignee, only if there was one, and a push of the Task id to the new
  assignee, only if there is one; afterwards the previous assignee's \<open>pendingTasks\<close>
  is its old list without the Task id, the new assignee's is its old list with the
  Task id at the end (the old list when the id was in it), and every other User is as
  before. When the two assignees are equal, the only write is the save of the Task and
  the Users are as before, whatever else changed in the Task.
\<close>

theorem put_task_sync:
  assumes ok: "put_task pf i body s = (Json 200 ''OK'' (TaskData t'), s')"
  shows "\<exists>existing. Task_findById (task_id t') s = Some existing
     \<and> tasks s' = tasks (Task_replace t' s)
     \<and> (assignedUser existing = assignedUser t' \<longrightarrow>
          users s' = users s \<and> journal s' = journal s @ [TaskSave t'])
     \<and> (assignedUser existing \<noteq> assignedUser t' \<longrightarrow>
          journal s' = journal s @ [TaskSave t']
             @ (case assignedUser existing of
                  None \<Rightarrow> [] | Some p \<Rightarrow> [UserPull p (task_id t')])
             @ (case assignedUser t' of
                  None \<Rightarrow> [] | Some c \<Rightarrow> [UserPushIfAbsent c (task_id t')])
          \<and> (\<forall>p. assignedUser existing = Some p \<longrightarrow>
                User_findById p s'
                  = map_option
                      (\<lambda>d. d\<lparr>pendingTasks := removeAll (task_id t') (pendingTasks d)\<rparr>)
                      (User_findById p s))
          \<and> (\<forall>c. assignedUser t' = Some c \<longrightarrow>
                (\<exists>u. User_findById c s = Some u
                   \<and> User_findById c s'
                       = Some (if task_id t' \<in> set (pendingTasks u) then u
                               else u\<lparr>pendingTasks := pendingTasks u @ [task_id t']\<rparr>)))
          \<and> (\<forall>x. assignedUser existing \<noteq> Some x \<and> assignedUser t' \<noteq> Some x \<longrightarrow>
                User_findById x s' = User_findById x s))"
proof -
  from put_task_ok_cases [OF ok] obtain existing
    where f: "Task_findById (task_id t') s = Some existing"
      and ex: "\<forall>c. assignedUser t' = Some c \<longrightarrow> (\<exists>u. User_findById c s = Some u)"
      and s': "s' = (case assignedUser t' of
               None \<Rightarrow> (\<lambda>x. x)
             | Some c \<Rightarrow> if assignedUser existing \<noteq> assignedUser t'
                         then User_pushIfAbsent c (task_id t') else (\<lambda>x. x))
              ((case assignedUser existing of
                  None \<Rightarrow> (\<lambda>x. x)
                | Some p \<Rightarrow> if assignedUser existing \<noteq> assignedUser t'
                            then User_pull p (task_id t') else (\<lambda>x. x))
                 (Task_replace t' s))"
    by blast
  have tk: "tasks s' = tasks (Task_replace t' s)"
    unfolding s'
    by (simp add: User_pushIfAbsent_def User_pull_def split: option.splits)
  have same: "assignedUser existing = assignedUser t' \<longrightarrow>
          users s' = users s \<and> journal s' = journal s @ [TaskSave t']"
    unfolding s' by (simp add: Task_replace_def split: option.splits)
  have jr: "assignedUser existing \<noteq> assignedUser t' \<longrightarrow>
          journal s' = journal s @ [TaskSave t']
             @ (case assignedUser existing of
                  None \<Rightarrow> [] | Some p \<Rightarrow> [UserPull p (task_id t')])
             @ (case assignedUser t' of
                  None \<Rightarrow> [] | Some c \<Rightarrow> [UserPushIfAbsent c (task_id t')])"
    unfolding s'
    by (simp add: Task_replace_def User_pushIfAbsent_def User_pull_def split: option.splits)
  have fd: "User_findById x s'
      = map_option (\<lambda>d. if assignedUser t' = Some x \<and> assignedUser existing \<noteq> assignedUser t'
                            \<and> task_id t' \<notin> set (pendingTasks d)
                         then d\<lparr>pendingTasks := pendingTasks d @ [task_id t']\<rparr> else d)
          (map_option (\<lambda>d. if assignedUser existing = Some x
                               \<and> assignedUser existing \<noteq> assignedUser t'
                            then d\<lparr>pendingTasks := removeAll (task_id t') (pendingTasks d)\<rparr>
                            else d)
             (User_findById x s))" for x
    unfolding s'
    by (cases "User_findById x s")
      (auto simp: User_findById_push User_findById_pull User_findById_replace
        split: option.splits)
  have pl: "assignedUser existing \<noteq> assignedUser t' \<longrightarrow>
      (\<forall>p. assignedUser existing = Some p \<longrightarrow>
                User_findById p s'
                  = map_option
                      (\<lambda>d. d\<lparr>pendingTasks := removeAll (task_id t') (pendingTasks d)\<rparr>)
                      (User_findById p s))"
    by (cases "assignedUser existing") (auto simp: fd option.map_comp o_def)
  have ps: "assignedUser existing \<noteq> assignedUser t' \<longrightarrow>
      (\<forall>c. assignedUser t' = Some c \<longrightarrow>
                (\<exists>u. User_findById c s = Some u
                   \<and> User_findById c s'
                       = Some (if task_id t' \<in> set (pendingTasks u) then u
                               else u\<lparr>pendingTasks := pendingTasks u @ [task_id t']\<rparr>)))"
  proof (intro impI allI)
    fix c
    assume ne: "assignedUser existing \<noteq> assignedUser t'" and c: "assignedUser t' = Some c"
    from ex c obtain u where u: "User_findById c s = Some u"
      by blast
    from ne c have "assignedUser existing \<noteq> Some c"
      by simp
    then have "User_findById c s'
        = Some (if task_id t' \<in> set (pendingTasks u) then u
                else u\<lparr>pendingTasks := pendingTasks u @ [task_id t']\<rparr>)"
      using ne c by (simp add: fd u)
    with u show "\<exists>u. User_findById c s = Some u
                   \<and> User_findById c s'
                       = Some (if task_id t' \<in> set (pendingTasks u) then u
                               else u\<lparr>pendingTasks := pendingTasks u @ [task_id t']\<rparr>)"
      by blast
  qed
  have fr: "\<forall>x. assignedUser existing \<noteq> Some x \<and> assignedUser t' \<noteq> Some x \<longrightarrow>
                User_findById x s' = User_findById x s"
    by (auto simp: fd option.map_comp o_def option.map_ident)
  from f tk same jr pl ps fr show ?thesis by blast
qed

theorem put_task_sync_witness:
  "(\<exists>s'. put_task reference_platform task1_id update_body example_store
            = (Json 200 ''OK'' (TaskData moved_task1), s')
      \<and> journal s' = [TaskSave moved_task1, UserPull alice_id task1_id,
                      UserPushIfAbsent bob_id task1_id]
      \<and> User_findById alice_id s' = Some (alice\<lparr>pendingTasks := [task3_id]\<rparr>)
      \<and> User_findById bob_id s' = Some (bob\<lparr>pendingTasks := [task2_id, task1_id]\<rparr>))
   \<and> (\<exists>s'. put_task reference_platform task1_id
               (update_body\<lparr>b_assignedUser := Str alice_id\<rparr>) example_store
            = (Json 200 ''OK'' (TaskData renamed_task1), s')
      \<and> users s' = [alice, bob] \<and> journal s' = [TaskSave renamed_task1])"
proof -
  have ids: "task_id moved_task1 = task1_id" "task_id renamed_task1 = task1_id"
    and asg: "assignedUser task1 = Some alice_id" "assignedUser moved_task1 = Some bob_id"
      "assignedUser renamed_task1 = Some alice_id"
    by (simp_all add: moved_task1_def renamed_task1_def task1_def)
  have st: "journal example_store = []" "users example_store = [alice, bob]"
    by (simp_all add: example_store_def)
  obtain s1 where ev1: "put_task reference_platform task1_id update_body example_store
      = (Json 200 ''OK'' (TaskData moved_task1), s1)"
    using example_put_task_moves by blast
  obtain s2 where ev2: "put_task reference_platform task1_id
      (update_body\<lparr>b_assignedUser := Str alice_id\<rparr>) example_store
      = (Json 200 ''OK'' (TaskData renamed_task1), s2)"
    using example_put_task_stays by blast
  have c1: "journal s1 = [TaskSave moved_task1, UserPull alice_id task1_id,
                      UserPushIfAbsent bob_id task1_id]
      \<and> User_findById alice_id s1 = Some (alice\<lparr>pendingTasks := [task3_id]\<rparr>)
      \<and> User_findById bob_id s1 = Some (bob\<lparr>pendingTasks := [task2_id, task1_id]\<rparr>)"
    using put_task_sync [OF ev1]
    by (simp add: ids asg st example_find_task1 example_find_alice example_find_bob)
      (simp add: alice_def bob_def)
  have c2: "users s2 = [alice, bob] \<and> journal s2 = [TaskSave renamed_task1]"
    using put_task_sync [OF ev2]
    by (simp add: ids asg st example_find_task1)
  from ev1 ev2 c1 c2 show ?thesis by blast
qed

text \<open>
  C3. A creation of a Task that answers 201 with a resolved assignee inserts the Task
  first and then sends the push of its id to the assignee. When the id occurred at most
  once in that User's \<open>pendingTasks\<close> before (a generated id is new and occurs in no
  list), it occurs exactly once afterwards, and sending the same push a second time
  changes no User: it still occurs exactly once.
\<close>

theorem post_task_push_once:
  assumes ok: "post_task pf new_id body s = (Json 201 ''Created'' (TaskData t), s')"
    and asg: "assignedUser t = Some c"
    and once: "\<forall>u. User_findById c s = Some u \<longrightarrow> count_list (pendingTasks u) new_id \<le> 1"
  shows "task_id t = new_id
     \<and> journal s' = journal s @ [TaskInsert t, UserPushIfAbsent c new_id]
     \<and> tasks s' = tasks s @ [t]
     \<and> (\<exists>u'. User_findById c s' = Some u' \<and> count_list (pendingTasks u') new_id = 1)
     \<and> (\<exists>u'. User_findById c (User_pushIfAbsent c new_id s') = Some u'
            \<and> count_list (pendingTasks u') new_id = 1)
     \<and> (\<forall>x. User_findById x (User_pushIfAbsent c new_id s') = User_findById x s')"
proof -
  define s1 where "s1 = s\<lparr>tasks := tasks s @ [t], journal := journal s @ [TaskInsert t]\<rparr>"
  from post_task_ok_cases [OF ok] asg obtain u
    where tid: "task_id t = new_id" and u: "User_findById c s = Some u"
      and s': "s' = User_pushIfAbsent c new_id s1"
    by (auto simp: s1_def)
  have u1: "User_findById x s1 = User_findById x s" for x
    by (simp add: User_findById_def s1_def)
  define u' where "u' = (if new_id \<notin> set (pendingTasks u)
      then u\<lparr>pendingTasks := pendingTasks u @ [new_id]\<rparr> else u)"
  have f': "User_findById c s' = Some u'"
    by (simp add: s' User_findById_push u1 u u'_def)
  have le: "count_list (pendingTasks u) new_id \<le> 1"
    using once u by blast
  have cnt: "count_list (pendingTasks u') new_id = 1"
  proof (cases "new_id \<in> set (pendingTasks u)")
    case True
    then have "count_list (pendingTasks u) new_id > 0"
      using count_list_0_iff [of "pendingTasks u" new_id] by auto
    with le True show ?thesis by (simp add: u'_def)
  next
    case False
    then show ?thesis by (simp add: u'_def count_list_snoc count_list_0_iff)
  qed
  have mem: "new_id \<in> set (pendingTasks u')"
    using cnt count_list_0_iff [of "pendingTasks u'" new_id] by auto
  have again: "User_findById x (User_pushIfAbsent c new_id s') = User_findById x s'" for x
  proof (cases "x = c")
    case True
    then show ?thesis using mem by (simp add: User_findById_push f')
  next
    case False
    then show ?thesis by (simp add: User_findById_push option.map_ident)
  qed
  have j: "journal s' = journal s @ [TaskInsert t, UserPushIfAbsent c new_id]"
    by (simp add: s' s1_def User_pushIfAbsent_def)
  have tk: "tasks s' = tasks s @ [t]"
    by (simp add: s' s1_def User_pushIfAbsent_def)
  from tid j tk f' cnt again show ?thesis by auto
qed

theorem post_task_push_once_witness:
  "\<exists>s'. post_task reference_platform fresh_id create_body example_store
          = (Json 201 ''Created'' (TaskData created_task), s')
     \<and> journal s' = [TaskInsert created_task, UserPushIfAbsent alice_id fresh_id]
     \<and> tasks s' = [task1, task2, task3, created_task]
     \<and> (\<exists>u'. User_findById alice_id s' = Some u'
            \<and> count_list (pendingTasks u') fresh_id = 1)
     \<and> (\<exists>u'. User_findById alice_id (User_pushIfAbsent alice_id fresh_id s') = Some u'
            \<and> count_list (pendingTasks u') fresh_id = 1)"
proof -
  obtain s1 where ev: "post_task reference_platform fresh_id create_body example_store
      = (Json 201 ''Created'' (TaskData created_task), s1)"
    using example_post_task by blast
  have asg: "assignedUser created_task = Some alice_id"
    by (simp add: created_task_def)
  have once: "\<forall>u. User_findById alice_id example_store = Some u \<longrightarrow>
      count_list (pendingTasks u) fresh_id \<le> 1"
    by (simp add: example_find_alice alice_def)
  have st: "journal example_store = []" "tasks example_store = [task1, task2, task3]"
    by (simp_all add: example_store_def)
  from post_task_push_once [OF ev asg once] ev show ?thesis
    by (simp add: st)
qed

subsection \<open>Replacing a user's \<open>pendingTasks\<close>\<close>

lemma save_each_ok:
  "save_each f ts s = (None, s') \<Longrightarrow> s' = fold (\<lambda>t. Task_replace (f t)) ts s"
  by (induction ts arbitrary: s) (auto simp: Task_save_def split: if_splits)

lemma fold_replace_users: "users (fold (\<lambda>t. Task_replace (f t)) ts s) = users s"
  by (induction ts arbitrary: s) (simp_all add: Task_replace_def)

lemma fold_replace_journal:
  "journal (fold (\<lambda>t. Task_replace (f t)) ts s) = journal s @ map (\<lambda>t. TaskSave (f t)) ts"
  by (induction ts arbitrary: s) (simp_all add: Task_replace_def)

lemma fold_replace_tasks:
  "tasks (fold (\<lambda>t. Task_replace (f t)) ts s)
     = fold (\<lambda>t. update_first (\<lambda>d. task_id d = task_id (f t)) (\<lambda>d. f t)) ts (tasks s)"
  by (induction ts arbitrary: s) (simp_all add: Task_replace_def)

lemma update_first_append:
  "\<forall>p \<in> set pre. \<not> P p \<Longrightarrow> P x \<Longrightarrow> update_first P f (pre @ x # rest) = pre @ f x # rest"
  by (induction pre) simp_all

lemma fold_update_filter:
  assumes keep: "\<And>t. task_id (f t) = task_id t"
  shows "distinct (map task_id (pre @ xs)) \<Longrightarrow>
     fold (\<lambda>t. update_first (\<lambda>d. task_id d = task_id (f t)) (\<lambda>d. f t)) (filter P xs) (pre @ xs)
       = pre @ map (\<lambda>t. if P t then f t else t) xs"
proof (induction xs arbitrary: pre)
  case Nil
  then show ?case by simp
next
  case (Cons x xs)
  show ?case
  proof (cases "P x")
    case True
    have no: "\<forall>p \<in> set pre. \<not> task_id p = task_id (f x)"
    proof
      fix p
      assume "p \<in> set pre"
      then have "task_id p \<in> set (map task_id pre)"
        by simp
      moreover have "task_id x \<notin> set (map task_id pre)"
        using Cons.prems by auto
      ultimately show "\<not> task_id p = task_id (f x)"
        by (auto simp: keep)
    qed
    have step: "update_first (\<lambda>d. task_id d = task_id (f x)) (\<lambda>d. f x) (pre @ x # xs)
        = (pre @ [f x]) @ xs"
      using update_first_append [where P = "\<lambda>d. task_id d = task_id (f x)" and pre = pre
          and x = x and f = "\<lambda>d. f x" and rest = xs, OF no]
      by (simp add: keep)
    have d: "distinct (map task_id ((pre @ [f x]) @ xs))"
      using Cons.prems by (simp add: keep)
    show ?thesis
      using Cons.IH [OF d] True by (simp add: step del: append_assoc)
  next
    case False
    have d: "distinct (map task_id ((pre @ [x]) @ xs))"
      using Cons.prems by simp
    show ?thesis
      using Cons.IH [OF d] False by simp
  qed
qed

lemma fold_replace_filter:
  assumes keep: "\<And>t. task_id (f t) = task_id t"
    and d: "distinct (map task_id (tasks s))"
  shows "tasks (fold (\<lambda>t. Task_replace (f t)) (filter P (tasks s)) s)
     = map (\<lambda>t. if P t then f t else t) (tasks s)"
  using fold_update_filter [where f = f and pre = "[]" and xs = "tasks s" and P = P, OF keep] d
  by (simp add: fold_replace_tasks)

lemma cast_ids_nil: "cast_ids pf [] = Inr []"
  by (simp add: cast_ids_def)

lemma cast_ids_canonical:
  "\<forall>x \<in> set xs. ObjectId_of pf (Str x) = Some x \<Longrightarrow> cast_ids pf xs = Inr xs"
  by (simp add: cast_ids_def list_all_iff map_idI)

lemma assign_to_unassign: "assign_to u (unassign t) = assign_to u t"
  by (simp add: assign_to_def unassign_def)

lemma sync_tasks_ok:
  assumes ok: "sync_tasks pf u rem add s1 = (None, s3)"
    and d: "distinct (map task_id (tasks s1))"
  shows "\<exists>rs as. cast_ids pf rem = Inr rs \<and> cast_ids pf add = Inr as
     \<and> users s3 = users s1
     \<and> tasks s3 = map (\<lambda>t. if task_id t \<in> set as then assign_to u t
                             else if task_id t \<in> set rs \<and> assignedUser t = Some (user_id u)
                             then unassign t else t) (tasks s1)
     \<and> journal s3 = journal s1
           @ map (\<lambda>t. TaskSave (unassign t))
               (filter (\<lambda>t. task_id t \<in> set rs \<and> assignedUser t = Some (user_id u)) (tasks s1))
           @ map (\<lambda>t. TaskSave (assign_to u t)) (filter (\<lambda>t. task_id t \<in> set as) (tasks s1))"
proof -
  have first: "(if rem \<noteq> []
        then (case cast_ids pf rem of
                Inl e \<Rightarrow> (Some e, s1)
              | Inr ids \<Rightarrow>
                  save_each unassign
                    (filter (\<lambda>t. task_id t \<in> set ids \<and> assignedUser t = Some (user_id u))
                       (tasks s1)) s1)
        else (None, s1))
      = (case cast_ids pf rem of
           Inl e \<Rightarrow> (Some e, s1)
         | Inr ids \<Rightarrow>
             save_each unassign
               (filter (\<lambda>t. task_id t \<in> set ids \<and> assignedUser t = Some (user_id u))
                  (tasks s1)) s1)"
    by (cases "rem = []") (simp_all add: cast_ids_nil)
  have second: "(if add \<noteq> []
        then (case cast_ids pf add of
                Inl e \<Rightarrow> (Some e, s2)
              | Inr ids \<Rightarrow>
                  save_each (assign_to u) (filter (\<lambda>t. task_id t \<in> set ids) (tasks s2)) s2)
        else (None, s2))
      = (case cast_ids pf add of
           Inl e \<Rightarrow> (Some e, s2)
         | Inr ids \<Rightarrow>
             save_each (assign_to u) (filter (\<lambda>t. task_id t \<in> set ids) (tasks s2)) s2)" for s2
    by (cases "add = []") (simp_all add: cast_ids_nil)
  have unfolded: "sync_tasks pf u rem add s1 =
      (case (case cast_ids pf rem of
               Inl e \<Rightarrow> (Some e, s1)
             | Inr ids \<Rightarrow>
                 save_each unassign
                   (filter (\<lambda>t. task_id t \<in> set ids \<and> assignedUser t = Some (user_id u))
                      (tasks s1)) s1) of
         (Some e, s2) \<Rightarrow> (Some e, s2)
       | (None, s2) \<Rightarrow>
           (case cast_ids pf add of
              Inl e \<Rightarrow> (Some e, s2)
            | Inr ids \<Rightarrow>
                save_each (assign_to u) (filter (\<lambda>t. task_id t \<in> set ids) (tasks s2)) s2))"
    unfolding sync_tasks_def first second ..
  from ok obtain rs where cr: "cast_ids pf rem = Inr rs"
    unfolding unfolded by (cases "cast_ids pf rem") auto
  define R where "R = (\<lambda>t::task. task_id t \<in> set rs \<and> assignedUser t = Some (user_id u))"
  from ok cr obtain s2 where l1: "save_each unassign (filter R (tasks s1)) s1 = (None, s2)"
    unfolding unfolded R_def by (auto split: prod.splits option.splits)
  from ok cr l1 obtain as where ca: "cast_ids pf add = Inr as"
    unfolding unfolded R_def by (cases "cast_ids pf add") auto
  define A where "A = (\<lambda>t::task. task_id t \<in> set as)"
  from ok cr l1 ca have l2: "save_each (assign_to u) (filter A (tasks s2)) s2 = (None, s3)"
    unfolding unfolded R_def A_def by simp
  define g where "g = (\<lambda>t. if R t then unassign t else t)"
  have s2: "s2 = fold (\<lambda>t. Task_replace (unassign t)) (filter R (tasks s1)) s1"
    using l1 by (rule save_each_ok)
  have s3: "s3 = fold (\<lambda>t. Task_replace (assign_to u t)) (filter A (tasks s2)) s2"
    using l2 by (rule save_each_ok)
  have t2: "tasks s2 = map g (tasks s1)"
    unfolding s2 g_def by (rule fold_replace_filter) (simp_all add: unassign_def d)
  have gid: "task_id (g t) = task_id t" for t
    by (simp add: g_def unassign_def)
  have d2: "distinct (map task_id (tasks s2))"
    using d by (simp add: t2 o_def gid)
  have t3: "tasks s3 = map (\<lambda>t. if A t then assign_to u t else t) (tasks s2)"
    unfolding s3 by (rule fold_replace_filter) (simp_all add: assign_to_def d2)
  have Ag: "A (g t) = A t" for t
    by (simp add: A_def gid)
  have ag: "assign_to u (g t) = assign_to u t" for t
    by (simp add: g_def assign_to_unassign)
  have pt: "(if A (g t) then assign_to u (g t) else g t)
      = (if A t then assign_to u t else if R t then unassign t else t)" for t
    by (simp add: Ag ag) (simp add: g_def)
  have fA: "filter A (tasks s2) = map g (filter A (tasks s1))"
    by (simp add: t2 filter_map o_def Ag)
  have tk: "tasks s3 = map (\<lambda>t. if A t then assign_to u t else if R t then unassign t else t)
      (tasks s1)"
    by (simp add: t3 t2 o_def pt)
  have jr: "journal s3 = journal s1 @ map (\<lambda>t. TaskSave (unassign t)) (filter R (tasks s1))
      @ map (\<lambda>t. TaskSave (assign_to u t)) (filter A (tasks s1))"
    by (simp add: s3 fold_replace_journal fA o_def ag) (simp add: s2 fold_replace_journal)
  have us: "users s3 = users s1"
    by (simp add: s3 s2 fold_replace_users)
  from cr ca us tk jr show ?thesis
    unfolding R_def A_def by blast
qed

lemma find_update_first_same:
  "find (\<lambda>d. user_id d = k) us = Some u \<Longrightarrow> user_id u' = k \<Longrightarrow>
     find (\<lambda>d. user_id d = k) (update_first (\<lambda>d. user_id d = k) (\<lambda>d. u') us) = Some u'"
  by (induction us) (auto split: if_splits)

lemma put_user_ok_cases:
  assumes "put_user pf i body s = (Json 200 ''OK'' (UserData u'), s')"
  shows "\<exists>u s1. User_findById (user_id u') s = Some u
     \<and> u' = u\<lparr>user_name := the (ub_name body), email := toLowerCase (the (ub_email body)),
              pendingTasks := (case ub_pendingTasks body of None \<Rightarrow> [] | Some l \<Rightarrow> l)\<rparr>
     \<and> users s1 = update_first (\<lambda>d. user_id d = user_id u') (\<lambda>d. u') (users s)
     \<and> tasks s1 = tasks s \<and> journal s1 = journal s @ [UserSave u']
     \<and> sync_tasks pf u' (filter (\<lambda>x. x \<notin> set (pendingTasks u')) (pendingTasks u))
          (filter (\<lambda>x. x \<notin> set (pendingTasks u)) (pendingTasks u')) s1 = (None, s')"
proof -
  from assms obtain ui where v: "ObjectId_of pf (Str i) = Some ui"
    by (auto simp: put_user_def isValidObjectId_def split: if_splits)
  from assms v have nm: "\<not> (missing (ub_name body) \<or> missing (ub_email body))"
    by (auto simp: put_user_def isValidObjectId_def split: if_splits)
  from assms v nm obtain u where f: "User_findById ui s = Some u"
    by (auto simp: put_user_def isValidObjectId_def split: option.splits)
  from assms v nm f have nd: "find (\<lambda>d. user_id d \<noteq> user_id u
      \<and> email d = toLowerCase (the (ub_email body))) (users s) = None"
    by (auto simp: put_user_def isValidObjectId_def split: if_splits)
  define nw where "nw = (case ub_pendingTasks body of None \<Rightarrow> [] | Some l \<Rightarrow> l)"
  define u1 where "u1 = u\<lparr>user_name := the (ub_name body),
      email := toLowerCase (the (ub_email body)), pendingTasks := nw\<rparr>"
  have id1: "user_id u1 = user_id u" "pendingTasks u1 = nw"
    by (simp_all add: u1_def)
  from assms v nm f nd obtain s1 where sv: "User_save pf u1 s = Inr s1"
    by (auto simp: put_user_def isValidObjectId_def Let_def u1_def nw_def split: sum.splits)
  from assms v nm f nd sv
  have l: "sync_tasks pf u1 (filter (\<lambda>x. x \<notin> set nw) (pendingTasks u))
          (filter (\<lambda>x. x \<notin> set (pendingTasks u)) nw) s1 = (None, s')"
    and u': "u' = u1"
    by (auto simp: put_user_def isValidObjectId_def Let_def u1_def nw_def
        split: prod.splits option.splits)
  have s1: "tasks s1 = tasks s" "journal s1 = journal s @ [UserSave u1]"
    "users s1 = update_first (\<lambda>d. user_id d = user_id u1) (\<lambda>d. u1) (users s)"
    using sv by (auto simp: User_save_def split: if_splits)
  have fu: "User_findById (user_id u') s = Some u"
    using f User_findById_id [OF f] by (simp add: u' id1)
  from fu s1 l show ?thesis
    unfolding u' by (intro exI [of _ u] exI [of _ s1]) (simp add: id1, simp add: u1_def nw_def)
qed

lemma reference_validate:
  "User_validate reference_platform u = (user_name u \<noteq> [] \<and> email u \<noteq> [])"
  by (simp add: reference_platform_def)

lemma reference_ObjectId_texts:
  "ObjectId_of reference_platform (Str task2_id) = Some task2_id"
  "ObjectId_of reference_platform (Str task3_id) = Some task3_id"
  "ObjectId_of reference_platform (Str ''65a0000000000000000000a9'')
     = Some ''65a0000000000000000000a9''"
  "ObjectId_of reference_platform (Str ''65A0000000000000000000A1'') = Some task1_id"
  by (simp_all add: reference_platform_def is_hex_def is_digit_def toLowerCase_def
      lower_char_def)

lemma example_store_fields:
  "tasks example_store = [task1, task2, task3]" "users example_store = [alice, bob]"
  "journal example_store = []"
  by (simp_all add: example_store_def)

lemma example_put_user:
  "\<exists>s'. put_user reference_platform alice_id replace_body example_store
          = (Json 200 ''OK'' (UserData updated_alice), s')"
  by (simp add: put_user_def isValidObjectId_def reference_ObjectId_alice example_find_alice
      replace_body_def missing_def Let_def User_save_def reference_validate sync_tasks_def
      cast_ids_def reference_ObjectId_task1 reference_ObjectId_texts Task_save_def
      task_valid_def unassign_def assign_to_def Task_replace_def updated_alice_def
      toLowerCase_def lower_char_def example_store_fields alice_def bob_def task1_def
      task2_def task3_def)

text \<open>
  Outside the hypothesis of the theorem below, the handler follows the cast of the
  query. A body that names the first task in upper case leaves the list of the lower
  case text and joins it as the upper case text: both loops find the task, which is
  unassigned and then assigned again. A text that denotes no ObjectId makes the query
  of its loop throw after the User was saved.
\<close>

lemma example_put_user_upper_case:
  "\<exists>s'. put_user reference_platform alice_id upper_case_body example_store
          = (Json 200 ''OK''
               (UserData (alice\<lparr>user_name := ''Alice'',
                     pendingTasks := [''65A0000000000000000000A1'', task3_id]\<rparr>)), s')
     \<and> tasks s' = [task1\<lparr>assignedUser := Some alice_id, assignedUserName := ''Alice''\<rparr>,
                    task2, task3]
     \<and> journal s'
         = [UserSave (alice\<lparr>user_name := ''Alice'',
                     pendingTasks := [''65A0000000000000000000A1'', task3_id]\<rparr>),
            TaskSave (task1\<lparr>assignedUser := None, assignedUserName := ''unassigned''\<rparr>),
            TaskSave (task1\<lparr>assignedUser := Some alice_id, assignedUserName := ''Alice''\<rparr>)]"
  by (simp add: put_user_def isValidObjectId_def reference_ObjectId_alice example_find_alice
      upper_case_body_def missing_def Let_def User_save_def reference_validate sync_tasks_def
      cast_ids_def reference_ObjectId_task1 reference_ObjectId_texts Task_save_def
      task_valid_def unassign_def assign_to_def Task_replace_def
      toLowerCase_def lower_char_def example_store_fields alice_def bob_def task1_def
      task2_def task3_def)

lemma example_put_user_malformed:
  "\<exists>s'. put_user reference_platform alice_id malformed_body example_store
          = (Next CastError, s')
     \<and> tasks s' = [task1, task2, task3]
     \<and> journal s'
         = [UserSave (alice\<lparr>user_name := ''Alice'',
                     pendingTasks := [task1_id, task3_id, ''42'']\<rparr>)]"
  by (simp add: put_user_def isValidObjectId_def reference_ObjectId_alice example_find_alice
      malformed_body_def missing_def Let_def User_save_def reference_validate sync_tasks_def
      cast_ids_def reference_ObjectId_short
      toLowerCase_def lower_char_def example_store_fields alice_def bob_def)

text \<open>
  C9. An update of a User that answers 200, in a store whose Tasks have distinct ids,
  where every text of the old and of the new list is an id in canonical form: the User
  is stored with its new name, email and list, and the Tasks are reconciled. A Task
  whose id is in the old list and not in the new one gets \<open>assignedUser = null\<close> and
  \<open>assignedUserName = "unassigned"\<close> only if it is assigned to this User; a Task whose
  id is in the new list and not in the old one gets this User's id and name; every
  other Task, so every Task whose id is in both lists, is as before. The writes are the
  save of the User and one save for each Task changed so, in the store's order: no
  Task write for an id in both lists, and nothing for an id that matches no Task.
\<close>

theorem put_user_reconciles:
  assumes ok: "put_user pf i body s = (Json 200 ''OK'' (UserData u'), s')"
    and ids: "distinct (map task_id (tasks s))"
    and found: "User_findById (user_id u') s = Some u"
    and canon: "\<forall>x \<in> set (pendingTasks u) \<union> set (pendingTasks u').
                  ObjectId_of pf (Str x) = Some x"
  shows "u' = u\<lparr>user_name := the (ub_name body), email := toLowerCase (the (ub_email body)),
               pendingTasks := (case ub_pendingTasks body of None \<Rightarrow> [] | Some l \<Rightarrow> l)\<rparr>
     \<and> users s' = update_first (\<lambda>d. user_id d = user_id u') (\<lambda>d. u') (users s)
     \<and> User_findById (user_id u') s' = Some u'
     \<and> tasks s'
         = map (\<lambda>t. if task_id t \<in> set (pendingTasks u) \<and> task_id t \<notin> set (pendingTasks u')
                        \<and> assignedUser t = Some (user_id u')
                     then t\<lparr>assignedUser := None, assignedUserName := ''unassigned''\<rparr>
                     else if task_id t \<in> set (pendingTasks u')
                             \<and> task_id t \<notin> set (pendingTasks u)
                     then t\<lparr>assignedUser := Some (user_id u'),
                            assignedUserName := user_name u'\<rparr>
                     else t) (tasks s)
     \<and> journal s'
         = journal s @ [UserSave u']
           @ map (\<lambda>t. TaskSave (t\<lparr>assignedUser := None, assignedUserName := ''unassigned''\<rparr>))
               (filter (\<lambda>t. task_id t \<in> set (pendingTasks u)
                             \<and> task_id t \<notin> set (pendingTasks u')
                             \<and> assignedUser t = Some (user_id u')) (tasks s))
           @ map (\<lambda>t. TaskSave (t\<lparr>assignedUser := Some (user_id u'),
                                    assignedUserName := user_name u'\<rparr>))
               (filter (\<lambda>t. task_id t \<in> set (pendingTasks u')
                             \<and> task_id t \<notin> set (pendingTasks u)) (tasks s))"
proof -
  define rem where "rem = filter (\<lambda>x. x \<notin> set (pendingTasks u')) (pendingTasks u)"
  define add where "add = filter (\<lambda>x. x \<notin> set (pendingTasks u)) (pendingTasks u')"
  from put_user_ok_cases [OF ok] found obtain s1
    where u': "u' = u\<lparr>user_name := the (ub_name body),
          email := toLowerCase (the (ub_email body)),
          pendingTasks := (case ub_pendingTasks body of None \<Rightarrow> [] | Some l \<Rightarrow> l)\<rparr>"
      and us1: "users s1 = update_first (\<lambda>d. user_id d = user_id u') (\<lambda>d. u') (users s)"
      and t1: "tasks s1 = tasks s" and j1: "journal s1 = journal s @ [UserSave u']"
      and sy: "sync_tasks pf u' rem add s1 = (None, s')"
    unfolding rem_def add_def by auto
  have d1: "distinct (map task_id (tasks s1))"
    using ids by (simp add: t1)
  have cr: "cast_ids pf rem = Inr rem"
    by (rule cast_ids_canonical) (use canon in \<open>auto simp: rem_def\<close>)
  have ca: "cast_ids pf add = Inr add"
    by (rule cast_ids_canonical) (use canon in \<open>auto simp: add_def\<close>)
  from sync_tasks_ok [OF sy d1] cr ca
  have us: "users s' = users s1"
    and tk0: "tasks s' = map (\<lambda>t. if task_id t \<in> set add then assign_to u' t
                             else if task_id t \<in> set rem \<and> assignedUser t = Some (user_id u')
                             then unassign t else t) (tasks s1)"
    and jr0: "journal s' = journal s1
           @ map (\<lambda>t. TaskSave (unassign t))
               (filter (\<lambda>t. task_id t \<in> set rem \<and> assignedUser t = Some (user_id u')) (tasks s1))
           @ map (\<lambda>t. TaskSave (assign_to u' t)) (filter (\<lambda>t. task_id t \<in> set add) (tasks s1))"
    by auto
  have users: "users s' = update_first (\<lambda>d. user_id d = user_id u') (\<lambda>d. u') (users s)"
    by (simp add: us us1)
  have stored: "User_findById (user_id u') s' = Some u'"
    unfolding User_findById_def users
    by (rule find_update_first_same) (use found in \<open>simp_all add: User_findById_def\<close>)
  have tk: "tasks s'
         = map (\<lambda>t. if task_id t \<in> set (pendingTasks u) \<and> task_id t \<notin> set (pendingTasks u')
                        \<and> assignedUser t = Some (user_id u')
                     then t\<lparr>assignedUser := None, assignedUserName := ''unassigned''\<rparr>
                     else if task_id t \<in> set (pendingTasks u')
                             \<and> task_id t \<notin> set (pendingTasks u)
                     then t\<lparr>assignedUser := Some (user_id u'),
                            assignedUserName := user_name u'\<rparr>
                     else t) (tasks s)"
    unfolding tk0 t1
    by (rule map_cong [OF refl]) (auto simp: rem_def add_def unassign_def assign_to_def)
  have jr: "journal s'
         = journal s @ [UserSave u']
           @ map (\<lambda>t. TaskSave (t\<lparr>assignedUser := None, assignedUserName := ''unassigned''\<rparr>))
               (filter (\<lambda>t. task_id t \<in> set (pendingTasks u)
                             \<and> task_id t \<notin> set (pendingTasks u')
                             \<and> assignedUser t = Some (user_id u')) (tasks s))
           @ map (\<lambda>t. TaskSave (t\<lparr>assignedUser := Some (user_id u'),
                                    assignedUserName := user_name u'\<rparr>))
               (filter (\<lambda>t. task_id t \<in> set (pendingTasks u')
                             \<and> task_id t \<notin> set (pendingTasks u)) (tasks s))"
    unfolding jr0 t1 j1
    by (simp add: rem_def add_def unassign_def assign_to_def conj_assoc)
  from u' users stored tk jr show ?thesis by blast
qed

theorem put_user_reconciles_witness:
  "\<exists>s'. put_user reference_platform alice_id replace_body example_store
          = (Json 200 ''OK'' (UserData updated_alice), s')
     \<and> users s' = [updated_alice, bob]
     \<and> User_findById alice_id s' = Some updated_alice
     \<and> tasks s' = [task1\<lparr>assignedUser := None, assignedUserName := ''unassigned''\<rparr>,
                    task2\<lparr>assignedUser := Some alice_id, assignedUserName := ''Alice''\<rparr>,
                    task3]
     \<and> journal s'
         = [UserSave updated_alice,
            TaskSave (task1\<lparr>assignedUser := None, assignedUserName := ''unassigned''\<rparr>),
            TaskSave (task2\<lparr>assignedUser := Some alice_id, assignedUserName := ''Alice''\<rparr>)]"
proof -
  obtain s1 where ev: "put_user reference_platform alice_id replace_body example_store
      = (Json 200 ''OK'' (UserData updated_alice), s1)"
    using example_put_user by blast
  have d: "distinct (map task_id (tasks example_store))"
    by (simp add: example_store_def task1_def task2_def task3_def)
  have ua: "user_id updated_alice = alice_id" "user_name updated_alice = ''Alice''"
    "pendingTasks updated_alice = [task3_id, task2_id, ''65a0000000000000000000a9'']"
    by (simp_all add: updated_alice_def alice_def)
  have found: "User_findById (user_id updated_alice) example_store = Some alice"
    by (simp add: ua example_find_alice)
  have fields: "task_id task1 = task1_id" "task_id task2 = task2_id" "task_id task3 = task3_id"
    "assignedUser task1 = Some alice_id" "assignedUser task2 = Some bob_id"
    "assignedUser task3 = Some alice_id" "pendingTasks alice = [task1_id, task3_id]"
    "user_id alice = alice_id" "user_id bob = bob_id"
    by (simp_all add: task1_def task2_def task3_def alice_def bob_def)
  have canon: "\<forall>x \<in> set (pendingTasks alice) \<union> set (pendingTasks updated_alice).
      ObjectId_of reference_platform (Str x) = Some x"
    by (simp add: ua fields reference_ObjectId_task1 reference_ObjectId_texts)
  from put_user_reconciles [OF ev d found canon] ev show ?thesis
    by (simp add: ua example_store_fields fields)
qed

end
